theory Spec2Isabelle
  imports Main "HOL-Library.Multiset"
begin

section \<open>Request payloads and the validation layer (types/types.ts)\<close>

text \<open>
  A field of a JSON request body. Every schema of the program constrains its fields with
  \<open>z.string()\<close>, so only the string case carries data that matters; \<open>JOther\<close> stands for
  arrays and nested objects. A string is a list of code units: \<open>length\<close> is what
  JavaScript's \<open>.length\<close> (and with it zod's \<open>min\<close>/\<open>max\<close>) counts.
\<close>

datatype json = JNull | JBool bool | JNum int | JStr string | JOther

type_synonym jobject = "string \<rightharpoonup> json"

text \<open>JavaScript truthiness of a property read (\<open>None\<close> is \<open>undefined\<close>).\<close>

fun truthy :: "json option \<Rightarrow> bool" where
  "truthy None = False"
| "truthy (Some JNull) = False"
| "truthy (Some (JBool b)) = b"
| "truthy (Some (JNum n)) = (n \<noteq> 0)"
| "truthy (Some (JStr s)) = (s \<noteq> [])"
| "truthy (Some JOther) = True"

fun truthy_str :: "string option \<Rightarrow> bool" where
  "truthy_str None = False"
| "truthy_str (Some s) = (s \<noteq> [])"

text \<open>
  The result of \<open>schema.safeParse\<close>: \<open>{success: true, data}\<close> or \<open>{success: false, error}\<close>.
  The handlers only read \<open>success\<close> and \<open>data\<close>, so the issue list is not kept.
\<close>

datatype 'a parse_result = Success 'a | Failure

text \<open>\<open>z.string().min(lo)\<close>, with \<open>.max(hi)\<close> when \<open>hi\<close> is given, on a property read.\<close>

definition zstring :: "nat \<Rightarrow> nat option \<Rightarrow> json option \<Rightarrow> string option" where
  "zstring lo hi v =
     (case v of
        Some (JStr s) \<Rightarrow>
          if lo \<le> length s \<and> (case hi of None \<Rightarrow> True | Some h \<Rightarrow> length s \<le> h)
          then Some s else None
      | _ \<Rightarrow> None)"

text \<open>The same with \<open>.optional()\<close>: an absent property parses to \<open>undefined\<close>.\<close>

definition zoptional :: "nat \<Rightarrow> nat option \<Rightarrow> json option \<Rightarrow> string option option" where
  "zoptional lo hi v =
     (case v of None \<Rightarrow> Some None | Some _ \<Rightarrow> map_option Some (zstring lo hi v))"

record user_input =
  in_username :: string
  in_email :: string
  in_password :: string

record signin_input =
  si_username :: "string option"
  si_email :: "string option"
  si_password :: string

record create_post_input =
  cp_title :: string
  cp_content :: string

record update_post_input =
  up_title :: "string option"
  up_content :: "string option"

text \<open>
  Each \<open>safeParse\<close> takes \<open>req.body\<close>: \<open>None\<close> when the body is not a JSON object
  (absent, or an array), on which \<open>z.object\<close> fails.
\<close>

definition UserSchema :: "jobject option \<Rightarrow> user_input parse_result" where
  "UserSchema b =
     (case b of
        None \<Rightarrow> Failure
      | Some obj \<Rightarrow>
          (case (zstring 3 (Some 20) (obj ''username''),
                 zstring 1 None (obj ''email''),
                 zstring 8 (Some 30) (obj ''password'')) of
             (Some u, Some e, Some p) \<Rightarrow>
               Success \<lparr>in_username = u, in_email = e, in_password = p\<rparr>
           | _ \<Rightarrow> Failure))"

definition SigninSchem :: "jobject option \<Rightarrow> signin_input parse_result" where
  "SigninSchem b =
     (case b of
        None \<Rightarrow> Failure
      | Some obj \<Rightarrow>
          (case (zoptional 3 (Some 20) (obj ''username''),
                 zoptional 1 None (obj ''email''),
                 zstring 8 (Some 30) (obj ''password'')) of
             (Some u, Some e, Some p) \<Rightarrow>
               Success \<lparr>si_username = u, si_email = e, si_password = p\<rparr>
           | _ \<Rightarrow> Failure))"

definition createPostSchema :: "jobject option \<Rightarrow> create_post_input parse_result" where
  "createPostSchema b =
     (case b of
        None \<Rightarrow> Failure
      | Some obj \<Rightarrow>
          (case (zstring 3 (Some 20) (obj ''title''), zstring 3 None (obj ''content'')) of
             (Some t, Some c) \<Rightarrow> Success \<lparr>cp_title = t, cp_content = c\<rparr>
           | _ \<Rightarrow> Failure))"

text \<open>
  \<open>updatePostSchema\<close> ends in \<open>.refine(data => data.title || data.content)\<close>: the object
  is rejected when both parsed fields are falsy.
\<close>

definition updatePostSchema :: "jobject option \<Rightarrow> update_post_input parse_result" where
  "updatePostSchema b =
     (case b of
        None \<Rightarrow> Failure
      | Some obj \<Rightarrow>
          (case (zoptional 3 (Some 20) (obj ''title''), zoptional 3 None (obj ''content'')) of
             (Some t, Some c) \<Rightarrow>
               if truthy_str t \<or> truthy_str c
               then Success \<lparr>up_title = t, up_content = c\<rparr> else Failure
           | _ \<Rightarrow> Failure))"

definition CommentSchema :: "jobject option \<Rightarrow> string parse_result" where
  "CommentSchema b =
     (case b of
        None \<Rightarrow> Failure
      | Some obj \<Rightarrow>
          (case zstring 3 (Some 500) (obj ''content'') of
             Some c \<Rightarrow> Success c
           | None \<Rightarrow> Failure))"

section \<open>The resource store\<close>

text \<open>
  The handlers reach the store through \<open>Client\<close>, a Prisma client exported by a module
  that is not among the sources; its operations are modelled below from the contract of
  the spec (4.4), the calls the handlers make and the migration.

  The rows of the three tables (prisma migration; the code reads and writes the same
  columns). Timestamps are points of a discrete clock.
\<close>

record user =
  user_id :: string
  user_username :: string
  user_email :: string
  user_password :: string
  user_created_at :: nat
  user_updated_at :: nat

record post =
  post_id :: string
  post_title :: string
  post_content :: string
  post_author_id :: string
  post_created_at :: nat
  post_updated_at :: nat

record comment =
  comment_id :: string
  comment_content :: string
  comment_post_id :: string
  comment_author_id :: string
  comment_created_at :: nat
  comment_updated_at :: nat

text \<open>What a rejected store call carries (the handlers never look at it).\<close>

datatype store_error =
  UniqueConstraintViolation | ForeignKeyViolation | RecordNotFound | InvalidArgument
| Unavailable

text \<open>The calls the handlers make on \<open>Client\<close>, with the arguments that decide them.\<close>

datatype store_call =
  UserCreate string string string
| UserFindUniqueUsername string
| UserFindUniqueEmail string
| PostCreate "string option" string string
| PostFindMany
| PostFindUnique string
| PostUpdate string "string option" "string option"
| PostDelete string
| CommentCreate json string "string option"
| CommentFindMany "string option"
| CommentFindUnique "string option"
| CommentUpdate "string option" string
| CommentDelete "string option"

text \<open>
  The state of the store: the tables, and \<open>calls\<close>, the log of every call made on the
  client with the error it threw, if any. The log is what "no store call occurs" and
  "at most one lookup" are read from; no handler reads it.
\<close>

record store =
  users :: "user list"
  posts :: "post list"
  comments :: "comment list"
  calls :: "(store_call \<times> store_error option) list"

text \<open>
  What a request runs against, besides the store: the token and password primitives
  (jsonwebtoken with \<open>JWT_SECRET\<close>, bcrypt), taken as parameters; \<open>fault\<close>, the unexpected
  failures of the database (a dropped connection, a timeout) for each call; the id the
  database generates for a row created by this request, and its current timestamp.
  \<open>jwt_verify\<close> throws (\<open>Inl\<close>) or returns the decoded payload; \<open>None\<close> is a falsy
  decoded value.
\<close>

datatype jwt_error = JsonWebTokenError | TokenExpiredError | NotBeforeError

text \<open>
  The token that \<open>jwt.sign(payload, JWT_SECRET, {expiresIn: "1h"})\<close> returns is a JWS in
  compact serialization: the encoded header, payload and signature, joined by dots.
  The three segments are what the library computes (a parameter of the model); the
  string of the token is \<open>compact\<close> of them.
\<close>

record jws =
  jws_header :: string
  jws_payload :: string
  jws_signature :: string

definition compact :: "jws \<Rightarrow> string" where
  "compact t = jws_header t @ ''.'' @ jws_payload t @ ''.'' @ jws_signature t"

record jwt_payload =
  payload_userId :: "string option"

record env =
  jwt_verify :: "string \<Rightarrow> jwt_error + jwt_payload option"
  jwt_sign :: "string \<Rightarrow> jws"
  bcrypt_hash :: "string \<Rightarrow> string"
  bcrypt_compare :: "string \<Rightarrow> string \<Rightarrow> bool"
  fault :: "store_call \<Rightarrow> store_error option"
  gen_id :: string
  now :: nat

text \<open>
  Modelled from the spec: a call on the Prisma client, which is not part of the sources
  (spec 4.4, 7: a store call returns or fails, and the handler only sees whether it
  threw). The call throws the unexpected failure the environment has for it, or what the
  operation itself rejects with, and then leaves the tables as they were; otherwise it
  returns the operation's result and tables. Either way the call is logged.
\<close>

definition invoke ::
  "env \<Rightarrow> store_call \<Rightarrow> (store \<Rightarrow> store_error + 'a \<times> store) \<Rightarrow> store
     \<Rightarrow> (store_error + 'a) \<times> store" where
  "invoke e c f s =
     (case (case fault e c of Some err \<Rightarrow> Inl err | None \<Rightarrow> f s) of
        Inl err \<Rightarrow> (Inl err, s\<lparr>calls := calls s @ [(c, Some err)]\<rparr>)
      | Inr (a, s') \<Rightarrow> (Inr a, s'\<lparr>calls := calls s' @ [(c, None)]\<rparr>))"

definition find_user :: "string \<Rightarrow> user list \<Rightarrow> user option" where
  "find_user i us = find (\<lambda>u. user_id u = i) us"

definition find_post :: "string \<Rightarrow> post list \<Rightarrow> post option" where
  "find_post i ps = find (\<lambda>p. post_id p = i) ps"

definition find_comment :: "string \<Rightarrow> comment list \<Rightarrow> comment option" where
  "find_comment i cs = find (\<lambda>c. comment_id c = i) cs"

subsection \<open>Users\<close>

text \<open>
  Modelled from the spec: \<open>Client.user.create\<close>, \<open>create(fields) -> User
  | fails with UniqueConstraintViolation\<close>; username and email are unique, and so is
  the primary key.
\<close>

definition user_create :: "env \<Rightarrow> string \<Rightarrow> string \<Rightarrow> string \<Rightarrow> store
    \<Rightarrow> (store_error + user) \<times> store" where
  "user_create e username password email =
     invoke e (UserCreate username password email) (\<lambda>s.
       if find (\<lambda>u. user_username u = username \<or> user_email u = email
                     \<or> user_id u = gen_id e) (users s) \<noteq> None
       then Inl UniqueConstraintViolation
       else
         let u = \<lparr>user_id = gen_id e, user_username = username, user_email = email,
                  user_password = password, user_created_at = now e,
                  user_updated_at = now e\<rparr>
         in Inr (u, s\<lparr>users := users s @ [u]\<rparr>))"

text \<open>
  Modelled from the spec: \<open>Client.user.findUnique({where: {username}})\<close>,
  \<open>findByUsername -> User|None\<close>.
\<close>

definition user_findUnique_username :: "env \<Rightarrow> string \<Rightarrow> store
    \<Rightarrow> (store_error + user option) \<times> store" where
  "user_findUnique_username e n =
     invoke e (UserFindUniqueUsername n) (\<lambda>s.
       Inr (find (\<lambda>u. user_username u = n) (users s), s))"

text \<open>
  Modelled from the spec: \<open>Client.user.findUnique({where: {email}})\<close>,
  \<open>findByEmail -> User|None\<close>.
\<close>

definition user_findUnique_email :: "env \<Rightarrow> string \<Rightarrow> store
    \<Rightarrow> (store_error + user option) \<times> store" where
  "user_findUnique_email e m =
     invoke e (UserFindUniqueEmail m) (\<lambda>s.
       Inr (find (\<lambda>u. user_email u = m) (users s), s))"

subsection \<open>Relations and ordering\<close>

datatype sort_order = Asc | Desc

text \<open>
  Modelled from the spec: \<open>orderBy: {created_at: "asc" | "desc"}\<close> of a
  \<open>findMany\<close> or an include, on the rows it selects (spec 4.4: order by
  \<open>created_at\<close> descending).
\<close>

definition order_by :: "sort_order \<Rightarrow> ('a \<Rightarrow> nat) \<Rightarrow> 'a list \<Rightarrow> 'a list" where
  "order_by d k xs = (case d of Asc \<Rightarrow> sort_key k xs | Desc \<Rightarrow> rev (sort_key k xs))"

text \<open>\<open>select: {id, username, email}\<close> and \<open>select: {id, username}\<close> of a user.\<close>

datatype author_view = AuthorView string string string

datatype author_name = AuthorName string string

text \<open>
  Modelled from the spec: the relation include \<open>author: {select: {id, username,
  email}}\<close> (spec 4.4: eager-relation includes); the user that
  \<open>author_id\<close> references.
\<close>

definition author_of :: "store \<Rightarrow> string \<Rightarrow> author_view option" where
  "author_of s a =
     map_option (\<lambda>u. AuthorView (user_id u) (user_username u) (user_email u))
       (find_user a (users s))"

text \<open>
  Modelled from the spec: the relation select \<open>athor: {select: {id,
  username}}\<close>.
\<close>

definition author_name_of :: "store \<Rightarrow> string \<Rightarrow> author_name option" where
  "author_name_of s a =
     map_option (\<lambda>u. AuthorName (user_id u) (user_username u)) (find_user a (users s))"

text \<open>A comment with \<open>include: {athor: {select: ...}}\<close>.\<close>

datatype comment_view = CommentView (cv_comment: comment) (cv_athor: "author_view option")

text \<open>
  Modelled from the spec: a comment with \<open>include: {athor: {select: {id, username,
  email}}}\<close>.
\<close>

definition comment_view_of :: "store \<Rightarrow> comment \<Rightarrow> comment_view" where
  "comment_view_of s c = CommentView c (author_of s (comment_author_id c))"

text \<open>
  A comment under \<open>select: {athor: {select: {id, username}}, id, content, created_at,
  updated_at}\<close>.
\<close>

datatype comment_summary =
  CommentSummary (cs_athor: "author_name option") (cs_id: string) (cs_content: string)
    (cs_created_at: nat) (cs_updated_at: nat)

text \<open>
  Modelled from the spec: a comment under \<open>select: {athor: {select: {id, username}},
  id, content, created_at, updated_at}\<close>.
\<close>

definition comment_summary_of :: "store \<Rightarrow> comment \<Rightarrow> comment_summary" where
  "comment_summary_of s c =
     CommentSummary (author_name_of s (comment_author_id c)) (comment_id c)
       (comment_content c) (comment_created_at c) (comment_updated_at c)"

text \<open>
  A post with \<open>include: {author, comments: {include: {athor}}}\<close>; the comments are
  ordered when the include says so, and come in table order otherwise.
\<close>

datatype post_view =
  PostView (pv_post: post) (pv_author: "author_view option") (pv_comments: "comment_view list")

text \<open>
  Modelled from the spec: a post with \<open>include: {author, comments: {include:
  {athor}}}\<close>; the comments of the post are ordered when the include has an
  \<open>orderBy\<close>, and come in table order otherwise.
\<close>

definition post_view_of :: "sort_order option \<Rightarrow> store \<Rightarrow> post \<Rightarrow> post_view" where
  "post_view_of ord s p =
     (let cs = filter (\<lambda>c. comment_post_id c = post_id p) (comments s);
          cs' = (case ord of None \<Rightarrow> cs | Some d \<Rightarrow> order_by d comment_created_at cs)
      in PostView p (author_of s (post_author_id p)) (map (comment_view_of s) cs'))"

text \<open>A post with \<open>include: {author}\<close> only.\<close>

datatype post_with_author = PostWithAuthor (pa_post: post) (pa_author: "author_view option")

subsection \<open>Posts\<close>

text \<open>
  Modelled from the spec: \<open>Client.post.create\<close>. The client rejects an
  \<open>undefined\<close> \<open>author_id\<close>; \<open>author_id\<close> must
  reference a user (the migration's foreign key) and the primary key is unique;
  \<open>created_at\<close> defaults to the current timestamp.
\<close>

definition post_create :: "env \<Rightarrow> string option \<Rightarrow> string \<Rightarrow> string \<Rightarrow> store
    \<Rightarrow> (store_error + post) \<times> store" where
  "post_create e author title content =
     invoke e (PostCreate author title content) (\<lambda>s.
       case author of
         None \<Rightarrow> Inl InvalidArgument
       | Some a \<Rightarrow>
           if find_user a (users s) = None then Inl ForeignKeyViolation
           else if find_post (gen_id e) (posts s) \<noteq> None then Inl UniqueConstraintViolation
           else
             let p = \<lparr>post_id = gen_id e, post_title = title, post_content = content,
                      post_author_id = a, post_created_at = now e, post_updated_at = now e\<rparr>
             in Inr (p, s\<lparr>posts := posts s @ [p]\<rparr>))"

text \<open>
  Modelled from the spec: \<open>Client.post.findMany\<close> with the includes of the
  handler, \<open>findAll(orderBy=created_at desc, include author+comments)\<close>; the
  order is the one the call asks for.
\<close>

definition post_findMany :: "env \<Rightarrow> sort_order \<Rightarrow> store
    \<Rightarrow> (store_error + post_view list) \<times> store" where
  "post_findMany e d =
     invoke e PostFindMany (\<lambda>s.
       Inr (map (post_view_of None s) (order_by d post_created_at (posts s)), s))"

text \<open>
  Modelled from the spec: \<open>Client.post.findUnique\<close> with the includes of the
  handler, \<open>findById(include author+comments sorted by created_at desc)\<close>.
\<close>

definition post_findUnique :: "env \<Rightarrow> string \<Rightarrow> store
    \<Rightarrow> (store_error + post_view option) \<times> store" where
  "post_findUnique e i =
     invoke e (PostFindUnique i) (\<lambda>s.
       Inr (map_option (post_view_of (Some Desc) s) (find_post i (posts s)), s))"

text \<open>
  Modelled from the spec: \<open>Client.post.findUnique\<close> with \<open>select:
  {author_id: true}\<close>, the projection read before a mutation.
\<close>

definition post_findUnique_author :: "env \<Rightarrow> string \<Rightarrow> store
    \<Rightarrow> (store_error + string option) \<times> store" where
  "post_findUnique_author e i =
     invoke e (PostFindUnique i) (\<lambda>s.
       Inr (map_option post_author_id (find_post i (posts s)), s))"

text \<open>
  Modelled from the spec: what \<open>update(id, partialFields)\<close> does to a row: the
  fields given replace the row's, the others stay, and the update timestamp is set.
\<close>

definition apply_post_update :: "env \<Rightarrow> string option \<Rightarrow> string option \<Rightarrow> post \<Rightarrow> post" where
  "apply_post_update e t c p =
     p\<lparr>post_title := (case t of None \<Rightarrow> post_title p | Some t' \<Rightarrow> t'),
        post_content := (case c of None \<Rightarrow> post_content p | Some c' \<Rightarrow> c'),
        post_updated_at := now e\<rparr>"

text \<open>
  Modelled from the spec: \<open>Client.post.update\<close> with \<open>include:
  {author}\<close>, \<open>update(id, partialFields) -> Post\<close>; it fails on an id
  that has no row.
\<close>

definition post_update :: "env \<Rightarrow> string \<Rightarrow> string option \<Rightarrow> string option \<Rightarrow> store
    \<Rightarrow> (store_error + post_with_author) \<times> store" where
  "post_update e i t c =
     invoke e (PostUpdate i t c) (\<lambda>s.
       case find_post i (posts s) of
         None \<Rightarrow> Inl RecordNotFound
       | Some p \<Rightarrow>
           Inr (PostWithAuthor (apply_post_update e t c p) (author_of s (post_author_id p)),
                s\<lparr>posts := map (\<lambda>q. if post_id q = i then apply_post_update e t c q else q)
                                (posts s)\<rparr>))"

text \<open>
  Modelled from the spec: \<open>Client.post.delete\<close>, \<open>delete(id)\<close>; it
  fails on an id that has no row, and on a post that comments reference (the migration's
  foreign key is \<open>ON DELETE RESTRICT\<close>).
\<close>

definition post_delete :: "env \<Rightarrow> string \<Rightarrow> store \<Rightarrow> (store_error + unit) \<times> store" where
  "post_delete e i =
     invoke e (PostDelete i) (\<lambda>s.
       if find_post i (posts s) = None then Inl RecordNotFound
       else if find (\<lambda>c. comment_post_id c = i) (comments s) \<noteq> None
       then Inl ForeignKeyViolation
       else Inr ((), s\<lparr>posts := filter (\<lambda>q. post_id q \<noteq> i) (posts s)\<rparr>))"

subsection \<open>Comments\<close>

text \<open>
  Modelled from the spec: \<open>Client.comment.create\<close>, \<open>create(post_id,
  content, author_id)\<close>. The client rejects a \<open>post_id\<close> that is not a
  string and an \<open>undefined\<close> \<open>author_id\<close>; both must reference
  rows (the migration's foreign keys).
\<close>

definition comment_create :: "env \<Rightarrow> json \<Rightarrow> string \<Rightarrow> string option \<Rightarrow> store
    \<Rightarrow> (store_error + comment) \<times> store" where
  "comment_create e pid content author =
     invoke e (CommentCreate pid content author) (\<lambda>s.
       case (pid, author) of
         (JStr p, Some a) \<Rightarrow>
           if find_post p (posts s) = None \<or> find_user a (users s) = None
           then Inl ForeignKeyViolation
           else if find_comment (gen_id e) (comments s) \<noteq> None
           then Inl UniqueConstraintViolation
           else
             let c = \<lparr>comment_id = gen_id e, comment_content = content, comment_post_id = p,
                      comment_author_id = a, comment_created_at = now e,
                      comment_updated_at = now e\<rparr>
             in Inr (c, s\<lparr>comments := comments s @ [c]\<rparr>)
       | _ \<Rightarrow> Inl InvalidArgument)"

text \<open>
  Modelled from the spec: \<open>Client.comment.findMany\<close> with the select of
  \<open>GET /comments\<close>, \<open>findAll(order by created_at desc)\<close>.
\<close>

definition comment_findMany :: "env \<Rightarrow> sort_order \<Rightarrow> store
    \<Rightarrow> (store_error + comment_summary list) \<times> store" where
  "comment_findMany e d =
     invoke e (CommentFindMany None) (\<lambda>s.
       Inr (map (comment_summary_of s) (order_by d comment_created_at (comments s)), s))"

text \<open>
  Modelled from the spec: \<open>Client.comment.findMany\<close> with \<open>where:
  {post_id}\<close>, \<open>findByPost(post_id, include author, order by created_at
  desc)\<close>; an \<open>undefined\<close> filter value does not filter.
\<close>

definition comment_findMany_post :: "env \<Rightarrow> string option \<Rightarrow> sort_order \<Rightarrow> store
    \<Rightarrow> (store_error + comment_view list) \<times> store" where
  "comment_findMany_post e pid d =
     invoke e (CommentFindMany pid) (\<lambda>s.
       let cs = (case pid of
                   None \<Rightarrow> comments s
                 | Some p \<Rightarrow> filter (\<lambda>c. comment_post_id c = p) (comments s))
       in Inr (map (comment_view_of s) (order_by d comment_created_at cs), s))"

text \<open>
  Modelled from the spec: \<open>Client.comment.findUnique\<close> with \<open>select:
  {author_id: true}\<close>, \<open>findById -> {author_id}\<close>; the client rejects an
  \<open>undefined\<close> id.
\<close>

definition comment_findUnique_author :: "env \<Rightarrow> string option \<Rightarrow> store
    \<Rightarrow> (store_error + string option) \<times> store" where
  "comment_findUnique_author e i =
     invoke e (CommentFindUnique i) (\<lambda>s.
       case i of
         None \<Rightarrow> Inl InvalidArgument
       | Some i' \<Rightarrow> Inr (map_option comment_author_id (find_comment i' (comments s)), s))"

text \<open>
  Modelled from the spec: what \<open>update(id, content)\<close> does to a row.
\<close>

definition apply_comment_update :: "env \<Rightarrow> string \<Rightarrow> comment \<Rightarrow> comment" where
  "apply_comment_update e c x = x\<lparr>comment_content := c, comment_updated_at := now e\<rparr>"

text \<open>
  Modelled from the spec: \<open>Client.comment.update\<close>, \<open>update(id,
  content)\<close>; it fails on an id that has no row.
\<close>

definition comment_update :: "env \<Rightarrow> string option \<Rightarrow> string \<Rightarrow> store
    \<Rightarrow> (store_error + comment) \<times> store" where
  "comment_update e i c =
     invoke e (CommentUpdate i c) (\<lambda>s.
       case i of
         None \<Rightarrow> Inl InvalidArgument
       | Some i' \<Rightarrow>
           (case find_comment i' (comments s) of
              None \<Rightarrow> Inl RecordNotFound
            | Some x \<Rightarrow>
                Inr (apply_comment_update e c x,
                     s\<lparr>comments := map (\<lambda>y. if comment_id y = i'
                                              then apply_comment_update e c y else y)
                                        (comments s)\<rparr>)))"

text \<open>
  Modelled from the spec: \<open>Client.comment.delete\<close>, \<open>delete(id)\<close>;
  it fails on an id that has no row.
\<close>

definition comment_delete :: "env \<Rightarrow> string option \<Rightarrow> store
    \<Rightarrow> (store_error + unit) \<times> store" where
  "comment_delete e i =
     invoke e (CommentDelete i) (\<lambda>s.
       case i of
         None \<Rightarrow> Inl InvalidArgument
       | Some i' \<Rightarrow>
           if find_comment i' (comments s) = None then Inl RecordNotFound
           else Inr ((), s\<lparr>comments := filter (\<lambda>y. comment_id y \<noteq> i') (comments s)\<rparr>))"

section \<open>Requests and responses\<close>

record request =
  headers :: "string \<rightharpoonup> string"
  params :: "string \<rightharpoonup> string"
  body :: "jobject option"

text \<open>The fields of a response body beside \<open>message\<close>.\<close>

datatype payload =
  NoPayload
| UserIdP string
| TokenP string
| PostIdP string
| AllPostsP "post_view list"
| PostP post_view
| UpdatedPostP post_with_author
| CommentIdP string
| AllCommentsP "comment_summary list"
| CommentsP "comment_view list"
| UpdatedCommentP comment

text \<open>
  What a request ends in: a response sent by the code (status, \<open>message\<close>, the other
  fields), or an exception that no \<open>catch\<close> of the code receives and that leaves the
  handler or the middleware.
\<close>

datatype failure = JwtFailure jwt_error | StoreFailure store_error

datatype outcome = Response nat "string option" payload | Uncaught failure

fun status_of :: "outcome \<Rightarrow> nat option" where
  "status_of (Response n m d) = Some n"
| "status_of (Uncaught f) = None"

text \<open>The store calls a run from \<open>s\<close> to \<open>s'\<close> has added to the log.\<close>

definition new_calls :: "store \<Rightarrow> store \<Rightarrow> (store_call \<times> store_error option) list" where
  "new_calls s s' = drop (length (calls s)) (calls s')"

text \<open>The error a store call has thrown, if any.\<close>

definition thrown :: "store_error + 'a \<Rightarrow> store_error option" where
  "thrown r = (case r of Inl err \<Rightarrow> Some err | Inr a \<Rightarrow> None)"

section \<open>The authorization guard (middleware.ts)\<close>

datatype guard_result = Next "string option" | Sent outcome | Thrown jwt_error

text \<open>
  \<open>req.headers["authorization"] ?? ""\<close>, then \<open>jwt.verify\<close> with no \<open>try\<close> around it:
  what it throws leaves the middleware. A truthy decoded value sets \<open>req.userId\<close> and
  calls \<open>next()\<close>; a falsy one sends the 404.
\<close>

definition middleware :: "env \<Rightarrow> request \<Rightarrow> guard_result" where
  "middleware e req =
     (let token = (case headers req ''authorization'' of None \<Rightarrow> [] | Some t \<Rightarrow> t)
      in case jwt_verify e token of
           Inl err \<Rightarrow> Thrown err
         | Inr None \<Rightarrow> Sent (Response 404 (Some ''Not Authorized'') NoPayload)
         | Inr (Some decoded) \<Rightarrow> Next (payload_userId decoded))"

text \<open>
  A route registered as \<open>router.METHOD(path, middleware, handler)\<close>: the handler runs
  only when the middleware calls \<open>next()\<close>, with the \<open>req.userId\<close> it has set.
\<close>

definition protected ::
  "env \<Rightarrow> (env \<Rightarrow> string option \<Rightarrow> request \<Rightarrow> store \<Rightarrow> outcome \<times> store) \<Rightarrow> request \<Rightarrow> store
     \<Rightarrow> outcome \<times> store" where
  "protected e handler req s =
     (case middleware e req of
        Thrown err \<Rightarrow> (Uncaught (JwtFailure err), s)
      | Sent r \<Rightarrow> (r, s)
      | Next uid \<Rightarrow> handler e uid req s)"

section \<open>The handlers of index.ts\<close>

text \<open>
  \<open>app.post("/register")\<close>: one \<open>catch\<close> around hashing and \<open>Client.user.create\<close>, which
  answers 409 whatever was thrown.
\<close>

definition register :: "env \<Rightarrow> request \<Rightarrow> store \<Rightarrow> outcome \<times> store" where
  "register e req s =
     (case UserSchema (body req) of
        Failure \<Rightarrow> (Response 422 (Some ''Incorrect input'') NoPayload, s)
      | Success d \<Rightarrow>
          (let hashedPassword = bcrypt_hash e (in_password d)
           in case user_create e (in_username d) hashedPassword (in_email d) s of
                (Inl err, s') \<Rightarrow> (Response 409 (Some ''User Already exists'') NoPayload, s')
              | (Inr u, s') \<Rightarrow>
                  (Response 200 (Some ''Registration successfull'') (UserIdP (user_id u)), s')))"

text \<open>
  \<open>app.post("/login")\<close>: \<open>if (username) ... else if (email) ...\<close> on the parsed data, with
  no \<open>try\<close> around the lookup; \<open>user\<close> stays \<open>undefined\<close> when neither branch runs.
  The token sent is the string \<open>jwt.sign({userId: user.id}, JWT_SECRET, ...)\<close> returns.
\<close>

definition login :: "env \<Rightarrow> request \<Rightarrow> store \<Rightarrow> outcome \<times> store" where
  "login e req s =
     (case SigninSchem (body req) of
        Failure \<Rightarrow> (Response 422 (Some ''Invalid Input'') NoPayload, s)
      | Success d \<Rightarrow>
          (case (if truthy_str (si_username d)
                 then user_findUnique_username e (the (si_username d)) s
                 else if truthy_str (si_email d)
                 then user_findUnique_email e (the (si_email d)) s
                 else (Inr None, s)) of
             (Inl err, s') \<Rightarrow> (Uncaught (StoreFailure err), s')
           | (Inr None, s') \<Rightarrow> (Response 404 (Some ''Not Authorized'') NoPayload, s')
           | (Inr (Some user), s') \<Rightarrow>
               if \<not> bcrypt_compare e (si_password d) (user_password user)
               then (Response 401 (Some ''Not correct password'') NoPayload, s')
               else (Response 200 (Some ''Login successful'')
                       (TokenP (compact (jwt_sign e (user_id user)))), s')))"

section \<open>The handlers of routes/posts.ts\<close>

text \<open>\<open>!postId\<close> on \<open>req.params.postId\<close>: \<open>undefined\<close> or the empty string.\<close>

definition missing :: "string option \<Rightarrow> bool" where
  "missing v = (\<not> truthy_str v)"

text \<open>\<open>router.post("/")\<close>\<close>

definition posts_post :: "env \<Rightarrow> string option \<Rightarrow> request \<Rightarrow> store \<Rightarrow> outcome \<times> store" where
  "posts_post e userId req s =
     (case createPostSchema (body req) of
        Failure \<Rightarrow> (Response 400 (Some ''Validationn Failed'') NoPayload, s)
      | Success d \<Rightarrow>
          (case post_create e userId (cp_title d) (cp_content d) s of
             (Inl err, s') \<Rightarrow> (Response 500 (Some ''Unable to create Post'') NoPayload, s')
           | (Inr createPost, s') \<Rightarrow>
               (Response 200 (Some ''Post Created'') (PostIdP (post_id createPost)), s')))"

text \<open>
  \<open>router.get("/")\<close>. \<open>findMany\<close> resolves to an array, which is truthy also when empty,
  so the \<open>!allPosts\<close> branch (404) is never taken and has no counterpart here.
\<close>

definition posts_get :: "env \<Rightarrow> string option \<Rightarrow> request \<Rightarrow> store \<Rightarrow> outcome \<times> store" where
  "posts_get e userId req s =
     (case post_findMany e Desc s of
        (Inl err, s') \<Rightarrow>
          (Response 500 (Some ''Error from server, not able to get post'') NoPayload, s')
      | (Inr allPosts, s') \<Rightarrow> (Response 200 (Some ''Got all posts'') (AllPostsP allPosts), s'))"

text \<open>\<open>router.get("/:postId")\<close>\<close>

definition posts_get_id :: "env \<Rightarrow> string option \<Rightarrow> request \<Rightarrow> store \<Rightarrow> outcome \<times> store" where
  "posts_get_id e userId req s =
     (let postId = params req ''postId'' in
      if missing postId then (Response 400 (Some ''Post ID is required'') NoPayload, s)
      else
        case post_findUnique e (the postId) s of
          (Inl err, s') \<Rightarrow>
            (Response 500 (Some ''Error from server, not able to get the single post'')
               NoPayload, s')
        | (Inr None, s') \<Rightarrow> (Response 404 (Some ''Post not found'') NoPayload, s')
        | (Inr (Some p), s') \<Rightarrow> (Response 200 (Some ''Got the single post'') (PostP p), s'))"

text \<open>
  \<open>router.put("/:postId")\<close>: id check, validation, then inside the \<open>try\<close> the read of
  \<open>author_id\<close>, the comparison with \<open>req.userId\<close>, and the update with the fields of the
  parsed data that are not \<open>undefined\<close>.
\<close>

definition posts_put :: "env \<Rightarrow> string option \<Rightarrow> request \<Rightarrow> store \<Rightarrow> outcome \<times> store" where
  "posts_put e userId req s =
     (let postId = params req ''postId'' in
      if missing postId then (Response 400 (Some ''Post ID is required'') NoPayload, s)
      else
        case updatePostSchema (body req) of
          Failure \<Rightarrow> (Response 400 (Some ''Incorrect input'') NoPayload, s)
        | Success d \<Rightarrow>
            (case post_findUnique_author e (the postId) s of
               (Inl err, s1) \<Rightarrow> (Response 500 (Some ''Server error'') NoPayload, s1)
             | (Inr None, s1) \<Rightarrow> (Response 404 (Some ''Post not found'') NoPayload, s1)
             | (Inr (Some author_id), s1) \<Rightarrow>
                 if Some author_id \<noteq> userId
                 then (Response 403 (Some ''Invalid author'') NoPayload, s1)
                 else
                   (case post_update e (the postId) (up_title d) (up_content d) s1 of
                      (Inl err, s2) \<Rightarrow> (Response 500 (Some ''Server error'') NoPayload, s2)
                    | (Inr updatePost, s2) \<Rightarrow>
                        (Response 200 (Some ''Post updated'') (UpdatedPostP updatePost), s2))))"

text \<open>\<open>router.delete("/:postId")\<close>; \<open>res.status(204).send()\<close> has no body.\<close>

definition posts_delete :: "env \<Rightarrow> string option \<Rightarrow> request \<Rightarrow> store \<Rightarrow> outcome \<times> store" where
  "posts_delete e userId req s =
     (let postId = params req ''postId'' in
      if missing postId then (Response 400 (Some ''Post ID is required'') NoPayload, s)
      else
        case post_findUnique_author e (the postId) s of
          (Inl err, s1) \<Rightarrow> (Response 500 (Some ''Server error'') NoPayload, s1)
        | (Inr None, s1) \<Rightarrow> (Response 404 (Some ''Post not found'') NoPayload, s1)
        | (Inr (Some author_id), s1) \<Rightarrow>
            if Some author_id \<noteq> userId
            then (Response 403 (Some ''Invalid author'') NoPayload, s1)
            else
              (case post_delete e (the postId) s1 of
                 (Inl err, s2) \<Rightarrow> (Response 500 (Some ''Server error'') NoPayload, s2)
               | (Inr u, s2) \<Rightarrow> (Response 204 None NoPayload, s2)))"

section \<open>The handlers of routes/comments.ts\<close>

text \<open>
  \<open>router.post("/comments")\<close>: \<open>post_id\<close> is read from the raw body, outside the schema,
  and only tested for truthiness.
\<close>

definition comments_post :: "env \<Rightarrow> string option \<Rightarrow> request \<Rightarrow> store \<Rightarrow> outcome \<times> store" where
  "comments_post e userId req s =
     (case CommentSchema (body req) of
        Failure \<Rightarrow> (Response 400 (Some ''Invalid input'') NoPayload, s)
      | Success content \<Rightarrow>
          (let postId = (case body req of None \<Rightarrow> None | Some obj \<Rightarrow> obj ''post_id'') in
           if \<not> truthy postId
           then (Response 400 (Some ''postId is required'') NoPayload, s)
           else
             case comment_create e (the postId) content userId s of
               (Inl err, s') \<Rightarrow>
                 (Response 500 (Some ''Unable to create comment'') NoPayload, s')
             | (Inr c, s') \<Rightarrow>
                 (Response 201 (Some ''Comment created'') (CommentIdP (comment_id c)), s')))"

text \<open>
  \<open>router.get("/comments")\<close>. As in \<open>router.get("/")\<close> of the posts, the \<open>!allComments\<close>
  branch is never taken.
\<close>

definition comments_get :: "env \<Rightarrow> string option \<Rightarrow> request \<Rightarrow> store \<Rightarrow> outcome \<times> store" where
  "comments_get e userId req s =
     (case comment_findMany e Desc s of
        (Inl err, s') \<Rightarrow> (Response 500 (Some ''Server error'') NoPayload, s')
      | (Inr allComments, s') \<Rightarrow>
          (Response 200 (Some ''Get all comments'') (AllCommentsP allComments), s'))"

text \<open>\<open>router.get("/post/:postId")\<close>\<close>

definition comments_get_post :: "env \<Rightarrow> string option \<Rightarrow> request \<Rightarrow> store \<Rightarrow> outcome \<times> store" where
  "comments_get_post e userId req s =
     (case comment_findMany_post e (params req ''postId'') Desc s of
        (Inl err, s') \<Rightarrow> (Response 500 (Some ''Unable to fetch comments'') NoPayload, s')
      | (Inr cs, s') \<Rightarrow> (Response 200 (Some ''Got comments'') (CommentsP cs), s'))"

text \<open>\<open>router.put("/comments/:commentId")\<close>\<close>

definition comments_put :: "env \<Rightarrow> string option \<Rightarrow> request \<Rightarrow> store \<Rightarrow> outcome \<times> store" where
  "comments_put e userId req s =
     (let commentId = params req ''commentId'' in
      case CommentSchema (body req) of
        Failure \<Rightarrow> (Response 400 (Some ''Invalid input'') NoPayload, s)
      | Success content \<Rightarrow>
          (case comment_findUnique_author e commentId s of
             (Inl err, s1) \<Rightarrow> (Response 500 (Some ''Unable to update comment'') NoPayload, s1)
           | (Inr None, s1) \<Rightarrow> (Response 404 (Some ''Comment not found'') NoPayload, s1)
           | (Inr (Some author_id), s1) \<Rightarrow>
               if Some author_id \<noteq> userId
               then (Response 403 (Some ''Invalid author'') NoPayload, s1)
               else
                 (case comment_update e commentId content s1 of
                    (Inl err, s2) \<Rightarrow>
                      (Response 500 (Some ''Unable to update comment'') NoPayload, s2)
                  | (Inr updated, s2) \<Rightarrow>
                      (Response 200 (Some ''Comment updated'') (UpdatedCommentP updated), s2))))"

text \<open>\<open>router.delete("/comments/:commentId")\<close>\<close>

definition comments_delete :: "env \<Rightarrow> string option \<Rightarrow> request \<Rightarrow> store \<Rightarrow> outcome \<times> store" where
  "comments_delete e userId req s =
     (let commentId = params req ''commentId'' in
      case comment_findUnique_author e commentId s of
        (Inl err, s1) \<Rightarrow> (Response 500 (Some ''Unable to delete comment'') NoPayload, s1)
      | (Inr None, s1) \<Rightarrow> (Response 404 (Some ''Comment not found'') NoPayload, s1)
      | (Inr (Some author_id), s1) \<Rightarrow>
          if Some author_id \<noteq> userId
          then (Response 403 (Some ''Invalid author'') NoPayload, s1)
          else
            (case comment_delete e commentId s1 of
               (Inl err, s2) \<Rightarrow> (Response 500 (Some ''Unable to delete comment'') NoPayload, s2)
             | (Inr u, s2) \<Rightarrow> (Response 204 None NoPayload, s2)))"

section \<open>Sample data\<close>

text \<open>A request from association lists of its headers, route parameters and body.\<close>

definition mk_request ::
  "(string \<times> string) list \<Rightarrow> (string \<times> string) list \<Rightarrow> (string \<times> json) list option
     \<Rightarrow> request" where
  "mk_request hs ps b = \<lparr>headers = map_of hs, params = map_of ps, body = map_option map_of b\<rparr>"

text \<open>
  An environment in which two tokens verify, a hash is the password behind a prefix,
  and the database does not fail; and one in which every call on the database fails.
\<close>

definition sample_env :: env where
  "sample_env =
     \<lparr>jwt_verify = (\<lambda>t. if t = ''token-u1'' then Inr (Some \<lparr>payload_userId = Some ''u1''\<rparr>)
                        else if t = ''token-u2'' then Inr (Some \<lparr>payload_userId = Some ''u2''\<rparr>)
                        else Inl JsonWebTokenError),
      jwt_sign = (\<lambda>i. \<lparr>jws_header = ''hdr'', jws_payload = i, jws_signature = ''sig''\<rparr>),
      bcrypt_hash = (\<lambda>p. ''hash:'' @ p),
      bcrypt_compare = (\<lambda>p h. h = ''hash:'' @ p),
      fault = (\<lambda>c. None),
      gen_id = ''n1'',
      now = 10\<rparr>"

definition failing_env :: env where
  "failing_env = sample_env\<lparr>fault := (\<lambda>c. Some Unavailable)\<rparr>"

definition alice :: user where
  "alice = \<lparr>user_id = ''u1'', user_username = ''alice'', user_email = ''alice@example.com'',
            user_password = ''hash:correct-horse'', user_created_at = 0, user_updated_at = 0\<rparr>"

definition bob :: user where
  "bob = \<lparr>user_id = ''u2'', user_username = ''bob'', user_email = ''bob@example.com'',
          user_password = ''hash:battery-staple'', user_created_at = 0, user_updated_at = 0\<rparr>"

definition post1 :: post where
  "post1 = \<lparr>post_id = ''p1'', post_title = ''First'', post_content = ''first post'',
            post_author_id = ''u1'', post_created_at = 1, post_updated_at = 1\<rparr>"

definition post2 :: post where
  "post2 = \<lparr>post_id = ''p2'', post_title = ''Second'', post_content = ''second post'',
            post_author_id = ''u1'', post_created_at = 2, post_updated_at = 2\<rparr>"

definition post3 :: post where
  "post3 = \<lparr>post_id = ''p3'', post_title = ''Third'', post_content = ''third post'',
            post_author_id = ''u2'', post_created_at = 3, post_updated_at = 3\<rparr>"

definition comment1 :: comment where
  "comment1 = \<lparr>comment_id = ''c1'', comment_content = ''nice'', comment_post_id = ''p1'',
               comment_author_id = ''u2'', comment_created_at = 4, comment_updated_at = 4\<rparr>"

definition comment2 :: comment where
  "comment2 = \<lparr>comment_id = ''c2'', comment_content = ''thanks'', comment_post_id = ''p1'',
               comment_author_id = ''u1'', comment_created_at = 5, comment_updated_at = 5\<rparr>"

definition comment3 :: comment where
  "comment3 = \<lparr>comment_id = ''c3'', comment_content = ''hello'', comment_post_id = ''p1'',
               comment_author_id = ''u2'', comment_created_at = 6, comment_updated_at = 6\<rparr>"

definition empty_store :: store where
  "empty_store = \<lparr>users = [], posts = [], comments = [], calls = []\<rparr>"

text \<open>The tables hold the rows out of their order of creation.\<close>

definition sample_store :: store where
  "sample_store =
     \<lparr>users = [alice, bob], posts = [post2, post3, post1],
      comments = [comment2, comment3, comment1], calls = []\<rparr>"

section \<open>Properties\<close>

text \<open>The definitions that evaluating a request on the sample data unfolds.\<close>

lemmas sample_defs =
  mk_request_def sample_env_def sample_store_def empty_store_def alice_def bob_def
  post1_def post2_def post3_def comment1_def comment2_def comment3_def

lemmas store_defs =
  invoke_def find_user_def find_post_def find_comment_def
  user_create_def user_findUnique_username_def user_findUnique_email_def
  post_create_def post_findMany_def post_findUnique_def post_findUnique_author_def
  post_update_def post_delete_def apply_post_update_def
  comment_create_def comment_findMany_def comment_findMany_post_def
  comment_findUnique_author_def comment_update_def comment_delete_def apply_comment_update_def

subsection \<open>Validation\<close>

lemma zstring_short: "length u < lo \<Longrightarrow> zstring lo hi (Some (JStr u)) = None"
  by (simp add: zstring_def)

lemma zstring_long: "h < length u \<Longrightarrow> zstring lo (Some h) (Some (JStr u)) = None"
  by (simp add: zstring_def)

text \<open>
  C6. A registration payload whose username is shorter than 3 or longer than 20
  characters is answered 422 by Register, and the store is returned as it was: its
  tables and its call log are unchanged, so no write (and no call at all) was made.
\<close>

theorem register_rejects_username_length:
  assumes "body req = Some obj" and "obj ''username'' = Some (JStr u)"
    and "length u < 3 \<or> 20 < length u"
  shows "register e req s = (Response 422 (Some ''Incorrect input'') NoPayload, s)"
proof -
  have "zstring 3 (Some 20) (obj ''username'') = None"
    using assms(2,3) by (auto simp: zstring_short zstring_long)
  then have "UserSchema (body req) = Failure"
    by (simp add: UserSchema_def assms(1))
  then show ?thesis by (simp add: register_def)
qed

theorem register_rejects_username_length_witness:
  "register sample_env
     (mk_request [] []
        (Some [(''username'', JStr ''al''), (''email'', JStr ''al@example.com''),
               (''password'', JStr ''long-enough'')]))
     empty_store
   = (Response 422 (Some ''Incorrect input'') NoPayload, empty_store) \<and>
   register sample_env
     (mk_request [] []
        (Some [(''username'', JStr ''abcdefghijklmnopqrstu''),
               (''email'', JStr ''al@example.com''), (''password'', JStr ''long-enough'')]))
     sample_store
   = (Response 422 (Some ''Incorrect input'') NoPayload, sample_store)"
  using
    register_rejects_username_length
      [where u = "''al''" and e = sample_env and s = empty_store
         and obj = "map_of [(''username'', JStr ''al''), (''email'', JStr ''al@example.com''),
                            (''password'', JStr ''long-enough'')]"
         and req = "mk_request [] []
                      (Some [(''username'', JStr ''al''), (''email'', JStr ''al@example.com''),
                             (''password'', JStr ''long-enough'')])"]
    register_rejects_username_length
      [where u = "''abcdefghijklmnopqrstu''" and e = sample_env and s = sample_store
         and obj = "map_of [(''username'', JStr ''abcdefghijklmnopqrstu''),
                            (''email'', JStr ''al@example.com''),
                            (''password'', JStr ''long-enough'')]"
         and req = "mk_request [] []
                      (Some [(''username'', JStr ''abcdefghijklmnopqrstu''),
                             (''email'', JStr ''al@example.com''),
                             (''password'', JStr ''long-enough'')])"]
  by (simp add: mk_request_def)

subsection \<open>The authorization guard\<close>

text \<open>
  C2. When \<open>jwt.verify\<close> throws on the token of a protected route (the empty string of a
  missing header, or an invalid token), the exception leaves the middleware: the
  request ends without a response of the code, not in the 404 "Not Authorized" of the
  \<open>else\<close> branch. The handler is not run and the store, call log included, is as before.
\<close>

theorem guard_throw_escapes:
  assumes "jwt_verify e (case headers req ''authorization'' of None \<Rightarrow> [] | Some t \<Rightarrow> t)
             = Inl err"
  shows "protected e handler req s = (Uncaught (JwtFailure err), s)"
  using assms by (simp add: protected_def middleware_def)

theorem guard_throw_escapes_witness:
  "protected sample_env posts_get (mk_request [] [] None) sample_store
     = (Uncaught (JwtFailure JsonWebTokenError), sample_store)"
  using guard_throw_escapes
    [where e = sample_env and req = "mk_request [] [] None" and err = JsonWebTokenError
       and handler = posts_get and s = sample_store]
  by (simp add: mk_request_def sample_env_def)

text \<open>
  The 404 of the guard is sent exactly when \<open>jwt.verify\<close> returns a falsy value.
\<close>

lemma middleware_sent_iff:
  "middleware e req = Sent r \<longleftrightarrow>
     jwt_verify e (case headers req ''authorization'' of None \<Rightarrow> [] | Some t \<Rightarrow> t) = Inr None
     \<and> r = Response 404 (Some ''Not Authorized'') NoPayload"
  by (auto simp: middleware_def split: sum.splits option.splits)

text \<open>
  When the token verifies, the route is its handler run with the \<open>userId\<close> of the
  decoded payload: what is proved of a handler for every \<open>req.userId\<close> holds of the
  route for every authenticated caller.
\<close>

lemma protected_next:
  assumes "jwt_verify e (case headers req ''authorization'' of None \<Rightarrow> [] | Some t \<Rightarrow> t)
             = Inr (Some decoded)"
  shows "protected e handler req s = handler e (payload_userId decoded) req s"
  using assms by (simp add: protected_def middleware_def)

subsection \<open>Store calls and the call log\<close>

lemma new_calls_self [simp]: "new_calls s s = []"
  by (simp add: new_calls_def)

lemma new_calls_append [simp]: "calls s' = calls s @ xs \<Longrightarrow> new_calls s s' = xs"
  by (simp add: new_calls_def)

lemma invoke_Inr:
  "invoke e c f s = (Inr a, s') \<Longrightarrow>
     fault e c = None \<and> (\<exists>s1. f s = Inr (a, s1) \<and> s' = s1\<lparr>calls := calls s1 @ [(c, None)]\<rparr>)"
  by (auto simp: invoke_def split: option.splits sum.splits)

lemma post_findUnique_author_ok:
  "fault e (PostFindUnique i) = None \<Longrightarrow>
   post_findUnique_author e i s =
     (Inr (map_option post_author_id (find_post i (posts s))),
      s\<lparr>calls := calls s @ [(PostFindUnique i, None)]\<rparr>)"
  by (simp add: post_findUnique_author_def invoke_def)

lemma comment_findUnique_author_ok:
  "fault e (CommentFindUnique (Some i)) = None \<Longrightarrow>
   comment_findUnique_author e (Some i) s =
     (Inr (map_option comment_author_id (find_comment i (comments s))),
      s\<lparr>calls := calls s @ [(CommentFindUnique (Some i), None)]\<rparr>)"
  by (simp add: comment_findUnique_author_def invoke_def)

lemma posts_delete_absent:
  assumes "params req ''postId'' = Some i" "i \<noteq> []" "find_post i (posts s) = None"
     "fault e (PostFindUnique i) = None"
  shows "posts_delete e uid req s = (Response 404 (Some ''Post not found'') NoPayload,
            s\<lparr>calls := calls s @ [(PostFindUnique i, None)]\<rparr>)"
  using assms by (simp add: posts_delete_def missing_def post_findUnique_author_ok)

lemma comments_delete_absent:
  assumes "params req ''commentId'' = Some i" "find_comment i (comments s) = None"
     "fault e (CommentFindUnique (Some i)) = None"
  shows "comments_delete e uid req s = (Response 404 (Some ''Comment not found'') NoPayload,
            s\<lparr>calls := calls s @ [(CommentFindUnique (Some i), None)]\<rparr>)"
  using assms by (simp add: comments_delete_def comment_findUnique_author_ok)

lemma find_filter_neq: "find (\<lambda>x. k x = i) (filter (\<lambda>x. k x \<noteq> i) xs) = None"
  by (induction xs) auto

lemma post_delete_Inr:
  "post_delete e i s = (Inr u, s') \<Longrightarrow> find_post i (posts s') = None"
  by (auto simp: post_delete_def find_post_def find_filter_neq dest!: invoke_Inr split: if_splits)

lemma comment_delete_Inr:
  "comment_delete e (Some i) s = (Inr u, s') \<Longrightarrow> find_comment i (comments s') = None"
  by (auto simp: comment_delete_def find_comment_def find_filter_neq dest!: invoke_Inr split: if_splits)

lemma posts_delete_204:
  assumes "posts_delete e uid req s = (Response 204 m d, s')" "params req ''postId'' = Some i"
  shows "find_post i (posts s') = None"
  using assms
  by (auto simp: posts_delete_def missing_def Let_def dest: post_delete_Inr
      split: if_splits prod.splits sum.splits option.splits)

lemma comments_delete_204:
  assumes "comments_delete e uid req s = (Response 204 m d, s')" "params req ''commentId'' = Some i"
  shows "find_comment i (comments s') = None"
  using assms
  by (auto simp: comments_delete_def Let_def dest: comment_delete_Inr
      split: if_splits prod.splits sum.splits option.splits)


lemma post_update_calls:
  "post_update e i t c s = (r, s') \<Longrightarrow> calls s' = calls s @ [(PostUpdate i t c, thrown r)]"
  by (auto simp: post_update_def invoke_def thrown_def split: option.splits sum.splits)

lemma post_delete_calls:
  "post_delete e i s = (r, s') \<Longrightarrow> calls s' = calls s @ [(PostDelete i, thrown r)]"
  by (auto simp: post_delete_def invoke_def thrown_def split: option.splits sum.splits if_splits)

lemma comment_update_calls:
  "comment_update e i c s = (r, s') \<Longrightarrow> calls s' = calls s @ [(CommentUpdate i c, thrown r)]"
  by (auto simp: comment_update_def invoke_def thrown_def split: option.splits sum.splits)

lemma comment_delete_calls:
  "comment_delete e i s = (r, s') \<Longrightarrow> calls s' = calls s @ [(CommentDelete i, thrown r)]"
  by (auto simp: comment_delete_def invoke_def thrown_def split: option.splits sum.splits if_splits)

lemma posts_put_forbidden:
  assumes "params req ''postId'' = Some i" "i \<noteq> []" "updatePostSchema (body req) = Success d"
    "fault e (PostFindUnique i) = None" "find_post i (posts s) = Some p"
    "Some (post_author_id p) \<noteq> uid"
  shows "posts_put e uid req s =
     (Response 403 (Some ''Invalid author'') NoPayload,
      s\<lparr>calls := calls s @ [(PostFindUnique i, None)]\<rparr>)"
  using assms by (simp add: posts_put_def missing_def post_findUnique_author_ok)

lemma posts_put_proceeds:
  assumes "params req ''postId'' = Some i" "i \<noteq> []" "updatePostSchema (body req) = Success d"
    "fault e (PostFindUnique i) = None" "find_post i (posts s) = Some p"
    "Some (post_author_id p) = uid"
  shows "map fst (new_calls s (snd (posts_put e uid req s))) =
     [PostFindUnique i, PostUpdate i (up_title d) (up_content d)]"
proof -
  let ?s1 = "s\<lparr>calls := calls s @ [(PostFindUnique i, None)]\<rparr>"
  obtain r s2 where u: "post_update e i (up_title d) (up_content d) ?s1 = (r, s2)"
    by (cases "post_update e i (up_title d) (up_content d) ?s1")
  have "snd (posts_put e uid req s) = s2"
    using assms u by (auto simp: posts_put_def missing_def post_findUnique_author_ok split: sum.splits)
  moreover have "calls s2 = calls s @ [(PostFindUnique i, None), (PostUpdate i (up_title d) (up_content d), thrown r)]"
    using post_update_calls [OF u] by simp
  ultimately show ?thesis by (simp add: new_calls_def)
qed

lemma posts_delete_forbidden:
  assumes "params req ''postId'' = Some i" "i \<noteq> []"
    "fault e (PostFindUnique i) = None" "find_post i (posts s) = Some p"
    "Some (post_author_id p) \<noteq> uid"
  shows "posts_delete e uid req s =
     (Response 403 (Some ''Invalid author'') NoPayload,
      s\<lparr>calls := calls s @ [(PostFindUnique i, None)]\<rparr>)"
  using assms by (simp add: posts_delete_def missing_def post_findUnique_author_ok)

lemma posts_delete_proceeds:
  assumes "params req ''postId'' = Some i" "i \<noteq> []"
    "fault e (PostFindUnique i) = None" "find_post i (posts s) = Some p"
    "Some (post_author_id p) = uid"
  shows "map fst (new_calls s (snd (posts_delete e uid req s))) =
     [PostFindUnique i, PostDelete i]"
proof -
  let ?s1 = "s\<lparr>calls := calls s @ [(PostFindUnique i, None)]\<rparr>"
  obtain r s2 where u: "post_delete e i ?s1 = (r, s2)"
    by (cases "post_delete e i ?s1")
  have "snd (posts_delete e uid req s) = s2"
    using assms u by (auto simp: posts_delete_def missing_def post_findUnique_author_ok split: sum.splits)
  moreover have "calls s2 = calls s @ [(PostFindUnique i, None), (PostDelete i, thrown r)]"
    using post_delete_calls [OF u] by simp
  ultimately show ?thesis by (simp add: new_calls_def)
qed

lemma comments_put_forbidden:
  assumes "params req ''commentId'' = Some i" "CommentSchema (body req) = Success c"
    "fault e (CommentFindUnique (Some i)) = None" "find_comment i (comments s) = Some x"
    "Some (comment_author_id x) \<noteq> uid"
  shows "comments_put e uid req s =
     (Response 403 (Some ''Invalid author'') NoPayload,
      s\<lparr>calls := calls s @ [(CommentFindUnique (Some i), None)]\<rparr>)"
  using assms by (simp add: comments_put_def comment_findUnique_author_ok)

lemma comments_put_proceeds:
  assumes "params req ''commentId'' = Some i" "CommentSchema (body req) = Success c"
    "fault e (CommentFindUnique (Some i)) = None" "find_comment i (comments s) = Some x"
    "Some (comment_author_id x) = uid"
  shows "map fst (new_calls s (snd (comments_put e uid req s))) =
     [CommentFindUnique (Some i), CommentUpdate (Some i) c]"
proof -
  let ?s1 = "s\<lparr>calls := calls s @ [(CommentFindUnique (Some i), None)]\<rparr>"
  obtain r s2 where u: "comment_update e (Some i) c ?s1 = (r, s2)"
    by (cases "comment_update e (Some i) c ?s1")
  have "snd (comments_put e uid req s) = s2"
    using assms u by (auto simp: comments_put_def comment_findUnique_author_ok split: sum.splits)
  moreover have "calls s2 = calls s @ [(CommentFindUnique (Some i), None), (CommentUpdate (Some i) c, thrown r)]"
    using comment_update_calls [OF u] by simp
  ultimately show ?thesis by (simp add: new_calls_def)
qed

lemma comments_delete_forbidden:
  assumes "params req ''commentId'' = Some i"
    "fault e (CommentFindUnique (Some i)) = None" "find_comment i (comments s) = Some x"
    "Some (comment_author_id x) \<noteq> uid"
  shows "comments_delete e uid req s =
     (Response 403 (Some ''Invalid author'') NoPayload,
      s\<lparr>calls := calls s @ [(CommentFindUnique (Some i), None)]\<rparr>)"
  using assms by (simp add: comments_delete_def comment_findUnique_author_ok)

lemma comments_delete_proceeds:
  assumes "params req ''commentId'' = Some i"
    "fault e (CommentFindUnique (Some i)) = None" "find_comment i (comments s) = Some x"
    "Some (comment_author_id x) = uid"
  shows "map fst (new_calls s (snd (comments_delete e uid req s))) =
     [CommentFindUnique (Some i), CommentDelete (Some i)]"
proof -
  let ?s1 = "s\<lparr>calls := calls s @ [(CommentFindUnique (Some i), None)]\<rparr>"
  obtain r s2 where u: "comment_delete e (Some i) ?s1 = (r, s2)"
    by (cases "comment_delete e (Some i) ?s1")
  have "snd (comments_delete e uid req s) = s2"
    using assms u by (auto simp: comments_delete_def comment_findUnique_author_ok split: sum.splits)
  moreover have "calls s2 = calls s @ [(CommentFindUnique (Some i), None), (CommentDelete (Some i), thrown r)]"
    using comment_delete_calls [OF u] by simp
  ultimately show ?thesis by (simp add: new_calls_def)
qed

subsection \<open>Ownership\<close>

text \<open>
  C1, as the code has it. An Update or Delete of a post or comment first passes the
  checks that come before the ownership check: the post id is present, and an update's
  payload passes its schema (an update that fails one of them is answered 400, whoever
  sends it). Then, when the existence read finds the resource:
  if \<open>req.userId\<close> differs from its \<open>author_id\<close> the answer is 403 and the store is
  the one before with the read added to its call log, so no table has changed;
  if they are equal, the calls made are the read followed by the store's update or
  delete of that id.
\<close>

theorem ownership_gate:
  "(params req ''postId'' = Some i \<and> i \<noteq> [] \<and> fault e (PostFindUnique i) = None
      \<and> find_post i (posts s) = Some p \<longrightarrow>
      (updatePostSchema (body req) = Success d \<and> Some (post_author_id p) \<noteq> uid \<longrightarrow>
         posts_put e uid req s =
           (Response 403 (Some ''Invalid author'') NoPayload,
            s\<lparr>calls := calls s @ [(PostFindUnique i, None)]\<rparr>)) \<and>
      (updatePostSchema (body req) = Success d \<and> Some (post_author_id p) = uid \<longrightarrow>
         map fst (new_calls s (snd (posts_put e uid req s))) =
           [PostFindUnique i, PostUpdate i (up_title d) (up_content d)]) \<and>
      (Some (post_author_id p) \<noteq> uid \<longrightarrow>
         posts_delete e uid req s =
           (Response 403 (Some ''Invalid author'') NoPayload,
            s\<lparr>calls := calls s @ [(PostFindUnique i, None)]\<rparr>)) \<and>
      (Some (post_author_id p) = uid \<longrightarrow>
         map fst (new_calls s (snd (posts_delete e uid req s))) =
           [PostFindUnique i, PostDelete i]))
   \<and>
   (params req ''commentId'' = Some j \<and> fault e (CommentFindUnique (Some j)) = None
      \<and> find_comment j (comments s) = Some x \<longrightarrow>
      (CommentSchema (body req) = Success c \<and> Some (comment_author_id x) \<noteq> uid \<longrightarrow>
         comments_put e uid req s =
           (Response 403 (Some ''Invalid author'') NoPayload,
            s\<lparr>calls := calls s @ [(CommentFindUnique (Some j), None)]\<rparr>)) \<and>
      (CommentSchema (body req) = Success c \<and> Some (comment_author_id x) = uid \<longrightarrow>
         map fst (new_calls s (snd (comments_put e uid req s))) =
           [CommentFindUnique (Some j), CommentUpdate (Some j) c]) \<and>
      (Some (comment_author_id x) \<noteq> uid \<longrightarrow>
         comments_delete e uid req s =
           (Response 403 (Some ''Invalid author'') NoPayload,
            s\<lparr>calls := calls s @ [(CommentFindUnique (Some j), None)]\<rparr>)) \<and>
      (Some (comment_author_id x) = uid \<longrightarrow>
         map fst (new_calls s (snd (comments_delete e uid req s))) =
           [CommentFindUnique (Some j), CommentDelete (Some j)]))"
  by (intro conjI impI; (elim conjE)?;
      (rule posts_put_forbidden posts_put_proceeds posts_delete_forbidden posts_delete_proceeds
            comments_put_forbidden comments_put_proceeds comments_delete_forbidden
            comments_delete_proceeds; assumption))

text \<open>
  The claim as written fails for an update whose payload is invalid: bob, who is not the
  author of post \<open>p1\<close>, sends an empty object and is answered 400, not 403.
\<close>

theorem ownership_gate_counterexample:
  "find_post ''p1'' (posts sample_store) = Some post1 \<and> post_author_id post1 \<noteq> ''u2'' \<and>
   protected sample_env posts_put
     (mk_request [(''authorization'', ''token-u2'')] [(''postId'', ''p1'')] (Some []))
     sample_store
   = (Response 400 (Some ''Incorrect input'') NoPayload, sample_store)"
  by (simp add: protected_def middleware_def posts_put_def missing_def updatePostSchema_def
      zoptional_def mk_request_def sample_env_def sample_store_def find_post_def
      post1_def post2_def post3_def)

theorem ownership_gate_witness:
  "posts_put sample_env (Some ''u2'')
     (mk_request [] [(''postId'', ''p1'')] (Some [(''title'', JStr ''Renamed'')])) sample_store
   = (Response 403 (Some ''Invalid author'') NoPayload,
      sample_store\<lparr>calls := [(PostFindUnique ''p1'', None)]\<rparr>) \<and>
   map fst (new_calls sample_store (snd (posts_put sample_env (Some ''u1'')
     (mk_request [] [(''postId'', ''p1'')] (Some [(''title'', JStr ''Renamed'')])) sample_store)))
   = [PostFindUnique ''p1'', PostUpdate ''p1'' (Some ''Renamed'') None] \<and>
   comments_delete sample_env (Some ''u1'')
     (mk_request [] [(''commentId'', ''c1'')] None) sample_store
   = (Response 403 (Some ''Invalid author'') NoPayload,
      sample_store\<lparr>calls := [(CommentFindUnique (Some ''c1''), None)]\<rparr>) \<and>
   map fst (new_calls sample_store (snd (comments_delete sample_env (Some ''u2'')
     (mk_request [] [(''commentId'', ''c1'')] None) sample_store)))
   = [CommentFindUnique (Some ''c1''), CommentDelete (Some ''c1'')]"
  using
    ownership_gate [where e = sample_env and s = sample_store and uid = "Some ''u2''"
      and req = "mk_request [] [(''postId'', ''p1'')] (Some [(''title'', JStr ''Renamed'')])"
      and i = "''p1''" and p = post1
      and d = "\<lparr>up_title = Some ''Renamed'', up_content = None\<rparr>"]
    ownership_gate [where e = sample_env and s = sample_store and uid = "Some ''u1''"
      and req = "mk_request [] [(''postId'', ''p1'')] (Some [(''title'', JStr ''Renamed'')])"
      and i = "''p1''" and p = post1
      and d = "\<lparr>up_title = Some ''Renamed'', up_content = None\<rparr>"]
    ownership_gate [where e = sample_env and s = sample_store and uid = "Some ''u1''"
      and req = "mk_request [] [(''commentId'', ''c1'')] None"
      and j = "''c1''" and x = comment1]
    ownership_gate [where e = sample_env and s = sample_store and uid = "Some ''u2''"
      and req = "mk_request [] [(''commentId'', ''c1'')] None"
      and j = "''c1''" and x = comment1]
  by (simp add: mk_request_def sample_env_def sample_store_def find_post_def find_comment_def
      updatePostSchema_def zoptional_def zstring_def
      post1_def post2_def post3_def comment1_def comment2_def comment3_def)

subsection \<open>Deleting what is not there\<close>

text \<open>
  C8. A Delete by an authenticated caller (whatever \<open>req.userId\<close> is) of a post or
  comment id that no row of the store has is answered 404, and the store afterwards is
  the one before with the existence read added to its call log: nothing was mutated.
  An id that a Delete has just removed (answer 204) is such an id, so repeating the
  Delete on the resulting store is answered 404, not a second 204. The id of a post is
  the non-empty path segment that the route \<open>/:postId\<close> binds; the existence read is
  assumed not to fail (a failing read is answered 500).
\<close>

theorem delete_of_absent_id:
  "(params req ''postId'' = Some i \<and> i \<noteq> [] \<and> find_post i (posts s) = None
      \<and> fault e (PostFindUnique i) = None \<longrightarrow>
      posts_delete e uid req s =
        (Response 404 (Some ''Post not found'') NoPayload,
         s\<lparr>calls := calls s @ [(PostFindUnique i, None)]\<rparr>))
   \<and>
   (params req ''commentId'' = Some j \<and> find_comment j (comments s) = None
      \<and> fault e (CommentFindUnique (Some j)) = None \<longrightarrow>
      comments_delete e uid req s =
        (Response 404 (Some ''Comment not found'') NoPayload,
         s\<lparr>calls := calls s @ [(CommentFindUnique (Some j), None)]\<rparr>))
   \<and>
   (params req ''postId'' = Some i \<and> posts_delete e uid req s = (Response 204 m d, s')
      \<and> fault e' (PostFindUnique i) = None \<longrightarrow>
      posts_delete e' uid' req s' =
        (Response 404 (Some ''Post not found'') NoPayload,
         s'\<lparr>calls := calls s' @ [(PostFindUnique i, None)]\<rparr>))
   \<and>
   (params req ''commentId'' = Some j \<and> comments_delete e uid req s = (Response 204 m d, s')
      \<and> fault e' (CommentFindUnique (Some j)) = None \<longrightarrow>
      comments_delete e' uid' req s' =
        (Response 404 (Some ''Comment not found'') NoPayload,
         s'\<lparr>calls := calls s' @ [(CommentFindUnique (Some j), None)]\<rparr>))"
proof (intro conjI impI; elim conjE)
  assume "params req ''postId'' = Some i" "i \<noteq> []" "find_post i (posts s) = None"
    "fault e (PostFindUnique i) = None"
  then show "posts_delete e uid req s =
        (Response 404 (Some ''Post not found'') NoPayload,
         s\<lparr>calls := calls s @ [(PostFindUnique i, None)]\<rparr>)"
    by (rule posts_delete_absent)
next
  assume "params req ''commentId'' = Some j" "find_comment j (comments s) = None"
    "fault e (CommentFindUnique (Some j)) = None"
  then show "comments_delete e uid req s =
        (Response 404 (Some ''Comment not found'') NoPayload,
         s\<lparr>calls := calls s @ [(CommentFindUnique (Some j), None)]\<rparr>)"
    by (rule comments_delete_absent)
next
  assume a: "params req ''postId'' = Some i" "posts_delete e uid req s = (Response 204 m d, s')"
    "fault e' (PostFindUnique i) = None"
  have "i \<noteq> []"
    using a(1,2) by (auto simp: posts_delete_def missing_def)
  moreover have "find_post i (posts s') = None"
    using a(2,1) by (rule posts_delete_204)
  ultimately show "posts_delete e' uid' req s' =
        (Response 404 (Some ''Post not found'') NoPayload,
         s'\<lparr>calls := calls s' @ [(PostFindUnique i, None)]\<rparr>)"
    using a(1,3) by (simp add: posts_delete_absent)
next
  assume a: "params req ''commentId'' = Some j"
    "comments_delete e uid req s = (Response 204 m d, s')"
    "fault e' (CommentFindUnique (Some j)) = None"
  have "find_comment j (comments s') = None"
    using a(2,1) by (rule comments_delete_204)
  then show "comments_delete e' uid' req s' =
        (Response 404 (Some ''Comment not found'') NoPayload,
         s'\<lparr>calls := calls s' @ [(CommentFindUnique (Some j), None)]\<rparr>)"
    using a(1,3) by (simp add: comments_delete_absent)
qed

theorem delete_of_absent_id_witness:
  "posts_delete sample_env (Some ''u1'') (mk_request [] [(''postId'', ''p9'')] None) sample_store
     = (Response 404 (Some ''Post not found'') NoPayload,
        sample_store\<lparr>calls := [(PostFindUnique ''p9'', None)]\<rparr>) \<and>
   comments_delete sample_env (Some ''u1'') (mk_request [] [(''commentId'', ''c9'')] None)
       sample_store
     = (Response 404 (Some ''Comment not found'') NoPayload,
        sample_store\<lparr>calls := [(CommentFindUnique (Some ''c9''), None)]\<rparr>) \<and>
   fst (posts_delete sample_env (Some ''u2'') (mk_request [] [(''postId'', ''p3'')] None)
       sample_store) = Response 204 None NoPayload \<and>
   fst (posts_delete sample_env (Some ''u2'') (mk_request [] [(''postId'', ''p3'')] None)
         (snd (posts_delete sample_env (Some ''u2'')
                 (mk_request [] [(''postId'', ''p3'')] None) sample_store)))
     = Response 404 (Some ''Post not found'') NoPayload \<and>
   fst (comments_delete sample_env (Some ''u2'') (mk_request [] [(''commentId'', ''c3'')] None)
       sample_store) = Response 204 None NoPayload \<and>
   fst (comments_delete sample_env (Some ''u2'') (mk_request [] [(''commentId'', ''c3'')] None)
         (snd (comments_delete sample_env (Some ''u2'')
                 (mk_request [] [(''commentId'', ''c3'')] None) sample_store)))
     = Response 404 (Some ''Comment not found'') NoPayload"
proof -
  let ?rp = "mk_request [] [(''postId'', ''p3'')] None"
  let ?rc = "mk_request [] [(''commentId'', ''c3'')] None"
  have p: "fst (posts_delete sample_env (Some ''u2'') ?rp sample_store) = Response 204 None NoPayload"
    by (simp add: posts_delete_def missing_def Let_def sample_defs store_defs)
  have c: "fst (comments_delete sample_env (Some ''u2'') ?rc sample_store)
             = Response 204 None NoPayload"
    by (simp add: comments_delete_def Let_def sample_defs store_defs)
  have 1: "posts_delete sample_env (Some ''u1'') (mk_request [] [(''postId'', ''p9'')] None) sample_store
     = (Response 404 (Some ''Post not found'') NoPayload,
        sample_store\<lparr>calls := [(PostFindUnique ''p9'', None)]\<rparr>)"
    using delete_of_absent_id [where e = sample_env and s = sample_store and i = "''p9''"
        and req = "mk_request [] [(''postId'', ''p9'')] None" and uid = "Some ''u1''"]
    by (simp add: sample_defs find_post_def)
  have 2: "comments_delete sample_env (Some ''u1'') (mk_request [] [(''commentId'', ''c9'')] None)
       sample_store
     = (Response 404 (Some ''Comment not found'') NoPayload,
        sample_store\<lparr>calls := [(CommentFindUnique (Some ''c9''), None)]\<rparr>)"
    using delete_of_absent_id [where e = sample_env and s = sample_store and j = "''c9''"
        and req = "mk_request [] [(''commentId'', ''c9'')] None" and uid = "Some ''u1''"]
    by (simp add: sample_defs find_comment_def)
  have 3: "fst (posts_delete sample_env (Some ''u2'') ?rp
         (snd (posts_delete sample_env (Some ''u2'') ?rp sample_store)))
     = Response 404 (Some ''Post not found'') NoPayload"
    using delete_of_absent_id [where e = sample_env and e' = sample_env and s = sample_store
        and i = "''p3''" and req = ?rp and uid = "Some ''u2''" and uid' = "Some ''u2''"
        and m = None and d = NoPayload
        and s' = "snd (posts_delete sample_env (Some ''u2'') ?rp sample_store)"] p
    by (simp add: prod_eq_iff) (simp add: sample_defs)
  have 4: "fst (comments_delete sample_env (Some ''u2'') ?rc
         (snd (comments_delete sample_env (Some ''u2'') ?rc sample_store)))
     = Response 404 (Some ''Comment not found'') NoPayload"
    using delete_of_absent_id [where e = sample_env and e' = sample_env and s = sample_store
        and j = "''c3''" and req = ?rc and uid = "Some ''u2''" and uid' = "Some ''u2''"
        and m = None and d = NoPayload
        and s' = "snd (comments_delete sample_env (Some ''u2'') ?rc sample_store)"] c
    by (simp add: prod_eq_iff) (simp add: sample_defs)
  from 1 2 p 3 c 4 show ?thesis by blast
qed

subsection \<open>Update Post needs a field\<close>

lemma updatePostSchema_no_field:
  "(case b of None \<Rightarrow> True | Some obj \<Rightarrow> obj ''title'' = None \<and> obj ''content'' = None)
     \<Longrightarrow> updatePostSchema b = Failure"
  by (auto simp: updatePostSchema_def zoptional_def split: option.splits)

text \<open>
  C7. An Update Post payload that supplies neither \<open>title\<close> nor \<open>content\<close> (or is
  no object at all) fails \<open>updatePostSchema\<close>, and the handler answers 400 and returns
  the store as it was, call log included: no store access came before the answer.
  \<open>safeParse\<close> is a total function into the tagged result: on every body it yields
  \<open>Failure\<close> or some \<open>Success d\<close>.
\<close>

theorem update_post_needs_a_field:
  "((case body req of None \<Rightarrow> True
      | Some obj \<Rightarrow> obj ''title'' = None \<and> obj ''content'' = None) \<longrightarrow>
      updatePostSchema (body req) = Failure \<and>
      status_of (fst (posts_put e uid req s)) = Some 400 \<and>
      snd (posts_put e uid req s) = s)
   \<and> (updatePostSchema b = Failure \<or> (\<exists>d. updatePostSchema b = Success d))"
proof (intro conjI impI)
  assume a: "case body req of None \<Rightarrow> True
      | Some obj \<Rightarrow> obj ''title'' = None \<and> obj ''content'' = None"
  then show f: "updatePostSchema (body req) = Failure"
    by (rule updatePostSchema_no_field)
  show "status_of (fst (posts_put e uid req s)) = Some 400"
    using f by (simp add: posts_put_def Let_def)
  show "snd (posts_put e uid req s) = s"
    using f by (simp add: posts_put_def Let_def)
next
  show "updatePostSchema b = Failure \<or> (\<exists>d. updatePostSchema b = Success d)"
    by (cases "updatePostSchema b") auto
qed

theorem update_post_needs_a_field_witness:
  "updatePostSchema (body (mk_request [] [(''postId'', ''p1'')] (Some [(''note'', JStr ''hello'')])))
     = Failure \<and>
   posts_put sample_env (Some ''u1'')
     (mk_request [] [(''postId'', ''p1'')] (Some [(''note'', JStr ''hello'')])) sample_store
     = (Response 400 (Some ''Incorrect input'') NoPayload, sample_store)"
  using update_post_needs_a_field
    [where req = "mk_request [] [(''postId'', ''p1'')] (Some [(''note'', JStr ''hello'')])"
       and e = sample_env and uid = "Some ''u1''" and s = sample_store]
  by (simp add: mk_request_def posts_put_def missing_def)

subsection \<open>Errors thrown by the store\<close>

lemma invoke_calls:
  assumes "\<And>a s1. f s = Inr (a, s1) \<Longrightarrow> calls s1 = calls s"
    and "invoke e c f s = (r, s')"
  shows "calls s' = calls s @ [(c, thrown r)]"
  using assms by (auto simp: invoke_def thrown_def split: option.splits sum.splits)

lemma user_create_calls:
  "user_create e u p m s = (r, s') \<Longrightarrow> calls s' = calls s @ [(UserCreate u p m, thrown r)]"
  unfolding user_create_def by (erule invoke_calls [rotated]) (auto simp: Let_def split: if_splits)

lemma user_findUnique_username_calls:
  "user_findUnique_username e n s = (r, s') \<Longrightarrow>
     calls s' = calls s @ [(UserFindUniqueUsername n, thrown r)]"
  unfolding user_findUnique_username_def by (erule invoke_calls [rotated]) auto

lemma user_findUnique_email_calls:
  "user_findUnique_email e n s = (r, s') \<Longrightarrow>
     calls s' = calls s @ [(UserFindUniqueEmail n, thrown r)]"
  unfolding user_findUnique_email_def by (erule invoke_calls [rotated]) auto

lemma post_create_calls:
  "post_create e a t c s = (r, s') \<Longrightarrow> calls s' = calls s @ [(PostCreate a t c, thrown r)]"
  unfolding post_create_def
  by (erule invoke_calls [rotated]) (auto simp: Let_def split: if_splits option.splits)

lemma post_findMany_calls:
  "post_findMany e d s = (r, s') \<Longrightarrow> calls s' = calls s @ [(PostFindMany, thrown r)]"
  unfolding post_findMany_def by (erule invoke_calls [rotated]) auto

lemma post_findUnique_calls:
  "post_findUnique e i s = (r, s') \<Longrightarrow> calls s' = calls s @ [(PostFindUnique i, thrown r)]"
  unfolding post_findUnique_def by (erule invoke_calls [rotated]) auto

lemma post_findUnique_author_calls:
  "post_findUnique_author e i s = (r, s') \<Longrightarrow>
     calls s' = calls s @ [(PostFindUnique i, thrown r)]"
  unfolding post_findUnique_author_def by (erule invoke_calls [rotated]) auto

lemma comment_create_calls:
  "comment_create e p c a s = (r, s') \<Longrightarrow>
     calls s' = calls s @ [(CommentCreate p c a, thrown r)]"
  unfolding comment_create_def
  by (erule invoke_calls [rotated])
     (auto simp: Let_def split: if_splits option.splits json.splits)

lemma comment_findMany_calls:
  "comment_findMany e d s = (r, s') \<Longrightarrow> calls s' = calls s @ [(CommentFindMany None, thrown r)]"
  unfolding comment_findMany_def by (erule invoke_calls [rotated]) auto

lemma comment_findMany_post_calls:
  "comment_findMany_post e p d s = (r, s') \<Longrightarrow>
     calls s' = calls s @ [(CommentFindMany p, thrown r)]"
  unfolding comment_findMany_post_def by (erule invoke_calls [rotated]) (auto simp: Let_def)

lemma comment_findUnique_author_calls:
  "comment_findUnique_author e i s = (r, s') \<Longrightarrow>
     calls s' = calls s @ [(CommentFindUnique i, thrown r)]"
  unfolding comment_findUnique_author_def
  by (erule invoke_calls [rotated]) (auto split: option.splits)

lemma thrown_Inr [simp]: "thrown (Inr a) = None"
  by (simp add: thrown_def)

lemma thrown_Inl [simp]: "thrown (Inl err) = Some err"
  by (simp add: thrown_def)

lemma posts_post_500:
  "posts_post e uid req s = (out, s') \<Longrightarrow> (c, Some err) \<in> set (new_calls s s')
     \<Longrightarrow> status_of out = Some 500"
  by (auto simp: posts_post_def dest!: post_create_calls
      split: parse_result.splits prod.splits sum.splits)

lemma posts_get_500:
  "posts_get e uid req s = (out, s') \<Longrightarrow> (c, Some err) \<in> set (new_calls s s')
     \<Longrightarrow> status_of out = Some 500"
  by (auto simp: posts_get_def dest!: post_findMany_calls
      split: prod.splits sum.splits)

lemma posts_get_id_500:
  "posts_get_id e uid req s = (out, s') \<Longrightarrow> (c, Some err) \<in> set (new_calls s s')
     \<Longrightarrow> status_of out = Some 500"
  by (auto simp: posts_get_id_def Let_def dest!: post_findUnique_calls
      split: prod.splits sum.splits option.splits if_splits)

lemma posts_put_500:
  "posts_put e uid req s = (out, s') \<Longrightarrow> (c, Some err) \<in> set (new_calls s s')
     \<Longrightarrow> status_of out = Some 500"
  by (auto simp: posts_put_def Let_def new_calls_def
      dest!: post_findUnique_author_calls post_update_calls
      split: parse_result.splits prod.splits sum.splits option.splits if_splits)

lemma posts_delete_500:
  "posts_delete e uid req s = (out, s') \<Longrightarrow> (c, Some err) \<in> set (new_calls s s')
     \<Longrightarrow> status_of out = Some 500"
  by (auto simp: posts_delete_def Let_def new_calls_def
      dest!: post_findUnique_author_calls post_delete_calls
      split: prod.splits sum.splits option.splits if_splits)

lemma comments_post_500:
  "comments_post e uid req s = (out, s') \<Longrightarrow> (c, Some err) \<in> set (new_calls s s')
     \<Longrightarrow> status_of out = Some 500"
  by (auto simp: comments_post_def Let_def dest!: comment_create_calls
      split: parse_result.splits prod.splits sum.splits if_splits)

lemma comments_get_500:
  "comments_get e uid req s = (out, s') \<Longrightarrow> (c, Some err) \<in> set (new_calls s s')
     \<Longrightarrow> status_of out = Some 500"
  by (auto simp: comments_get_def dest!: comment_findMany_calls
      split: prod.splits sum.splits)

lemma comments_get_post_500:
  "comments_get_post e uid req s = (out, s') \<Longrightarrow> (c, Some err) \<in> set (new_calls s s')
     \<Longrightarrow> status_of out = Some 500"
  by (auto simp: comments_get_post_def dest!: comment_findMany_post_calls
      split: prod.splits sum.splits)

lemma comments_put_500:
  "comments_put e uid req s = (out, s') \<Longrightarrow> (c, Some err) \<in> set (new_calls s s')
     \<Longrightarrow> status_of out = Some 500"
  by (auto simp: comments_put_def Let_def new_calls_def
      dest!: comment_findUnique_author_calls comment_update_calls
      split: parse_result.splits prod.splits sum.splits option.splits if_splits)

lemma comments_delete_500:
  "comments_delete e uid req s = (out, s') \<Longrightarrow> (c, Some err) \<in> set (new_calls s s')
     \<Longrightarrow> status_of out = Some 500"
  by (auto simp: comments_delete_def Let_def new_calls_def
      dest!: comment_findUnique_author_calls comment_delete_calls
      split: prod.splits sum.splits option.splits if_splits)

lemma register_409:
  "register e req s = (out, s') \<Longrightarrow> (c, Some err) \<in> set (new_calls s s')
     \<Longrightarrow> status_of out = Some 409"
  by (auto simp: register_def Let_def dest!: user_create_calls
      split: parse_result.splits prod.splits sum.splits)

text \<open>
  C3, as the code has it. In each of the ten handlers of posts and comments, when a
  store call made by the handler has thrown (the log of its run holds a call with an
  error, whatever the error), the answer is 500. In Register the \<open>catch\<close> answers 409
  instead. (Login has no \<open>catch\<close>; it is left out of the statement.)
\<close>

theorem store_errors_answered:
  "(h \<in> {posts_post, posts_get, posts_get_id, posts_put, posts_delete,
          comments_post, comments_get, comments_get_post, comments_put, comments_delete}
      \<and> h e uid req s = (out, s') \<and> (c, Some err) \<in> set (new_calls s s')
      \<longrightarrow> status_of out = Some 500)
   \<and>
   (register e req s = (out, s') \<and> (c, Some err) \<in> set (new_calls s s')
      \<longrightarrow> status_of out = Some 409)"
proof (intro conjI impI; elim conjE)
  assume h: "h \<in> {posts_post, posts_get, posts_get_id, posts_put, posts_delete,
          comments_post, comments_get, comments_get_post, comments_put, comments_delete}"
    and r: "h e uid req s = (out, s')" and t: "(c, Some err) \<in> set (new_calls s s')"
  from h consider "h = posts_post" | "h = posts_get" | "h = posts_get_id" | "h = posts_put"
    | "h = posts_delete" | "h = comments_post" | "h = comments_get" | "h = comments_get_post"
    | "h = comments_put" | "h = comments_delete"
    by blast
  then show "status_of out = Some 500"
  proof cases
    case 1 with r t show ?thesis by (simp add: posts_post_500)
  next
    case 2 with r t show ?thesis by (simp add: posts_get_500)
  next
    case 3 with r t show ?thesis by (simp add: posts_get_id_500)
  next
    case 4 with r t show ?thesis by (simp add: posts_put_500)
  next
    case 5 with r t show ?thesis by (simp add: posts_delete_500)
  next
    case 6 with r t show ?thesis by (simp add: comments_post_500)
  next
    case 7 with r t show ?thesis by (simp add: comments_get_500)
  next
    case 8 with r t show ?thesis by (simp add: comments_get_post_500)
  next
    case 9 with r t show ?thesis by (simp add: comments_put_500)
  next
    case 10 with r t show ?thesis by (simp add: comments_delete_500)
  qed
next
  assume "register e req s = (out, s')" "(c, Some err) \<in> set (new_calls s s')"
  then show "status_of out = Some 409" by (rule register_409)
qed

text \<open>
  The claim as written fails for Register: with a database that fails for a reason
  other than a duplicate, the user-create call throws and the answer is 409, not 500.
\<close>

theorem store_errors_answered_counterexample:
  "register failing_env
     (mk_request [] []
        (Some [(''username'', JStr ''carol''), (''email'', JStr ''carol@example.com''),
               (''password'', JStr ''long-enough'')]))
     sample_store
   = (Response 409 (Some ''User Already exists'') NoPayload,
      sample_store\<lparr>calls :=
        [(UserCreate ''carol'' ''hash:long-enough'' ''carol@example.com'', Some Unavailable)]\<rparr>)"
  by (simp add: register_def UserSchema_def zstring_def user_create_def invoke_def
      failing_env_def sample_defs)

theorem store_errors_answered_witness:
  "posts_get failing_env (Some ''u1'') (mk_request [] [] None) sample_store
     = (Response 500 (Some ''Error from server, not able to get post'') NoPayload,
        sample_store\<lparr>calls := [(PostFindMany, Some Unavailable)]\<rparr>) \<and>
   status_of (fst (posts_get failing_env (Some ''u1'') (mk_request [] [] None) sample_store))
     = Some 500 \<and>
   status_of (fst (register sample_env
     (mk_request [] []
        (Some [(''username'', JStr ''alice''), (''email'', JStr ''alice2@example.com''),
               (''password'', JStr ''long-enough'')])) sample_store)) = Some 409"
proof -
  let ?r = "mk_request [] [] None"
  let ?q = "mk_request [] []
        (Some [(''username'', JStr ''alice''), (''email'', JStr ''alice2@example.com''),
               (''password'', JStr ''long-enough'')])"
  have g: "posts_get failing_env (Some ''u1'') ?r sample_store
     = (Response 500 (Some ''Error from server, not able to get post'') NoPayload,
        sample_store\<lparr>calls := [(PostFindMany, Some Unavailable)]\<rparr>)"
    by (simp add: posts_get_def post_findMany_def invoke_def failing_env_def sample_defs)
  have 1: "status_of (fst (posts_get failing_env (Some ''u1'') ?r sample_store)) = Some 500"
    using store_errors_answered [where h = posts_get and e = failing_env and uid = "Some ''u1''"
        and req = ?r and s = sample_store
        and out = "fst (posts_get failing_env (Some ''u1'') ?r sample_store)"
        and s' = "snd (posts_get failing_env (Some ''u1'') ?r sample_store)"
        and c = PostFindMany and err = Unavailable, THEN conjunct1]
    by (simp add: g new_calls_def)
  have u: "register sample_env ?q sample_store
      = (Response 409 (Some ''User Already exists'') NoPayload,
         sample_store\<lparr>calls := [(UserCreate ''alice'' ''hash:long-enough'' ''alice2@example.com'',
           Some UniqueConstraintViolation)]\<rparr>)"
    by (simp add: register_def UserSchema_def zstring_def user_create_def invoke_def sample_defs)
  have 2: "status_of (fst (register sample_env ?q sample_store)) = Some 409"
    using store_errors_answered [where e = sample_env and req = ?q
        and s = sample_store
        and out = "fst (register sample_env ?q sample_store)"
        and s' = "snd (register sample_env ?q sample_store)"
        and c = "UserCreate ''alice'' ''hash:long-enough'' ''alice2@example.com''"
        and err = UniqueConstraintViolation, THEN conjunct2]
    by (simp add: u new_calls_def)
  from g 1 2 show ?thesis by simp
qed

subsection \<open>Login\<close>

lemma zstring_Some: "zstring lo hi v = Some x \<Longrightarrow> v = Some (JStr x) \<and> lo \<le> length x"
  by (auto simp: zstring_def split: option.splits json.splits if_splits)

lemma zoptional_Some:
  "zoptional lo hi v = Some x \<Longrightarrow>
     map_option JStr x = v \<and> (\<forall>y. x = Some y \<longrightarrow> lo \<le> length y)"
  by (auto simp: zoptional_def dest: zstring_Some split: option.splits)

lemma SigninSchem_Success:
  assumes "SigninSchem b = Success d"
  shows "\<exists>obj. b = Some obj \<and> map_option JStr (si_username d) = obj ''username''
           \<and> map_option JStr (si_email d) = obj ''email''
           \<and> obj ''password'' = Some (JStr (si_password d))"
    and "truthy_str (si_username d) \<longleftrightarrow> si_username d \<noteq> None"
    and "truthy_str (si_email d) \<longleftrightarrow> si_email d \<noteq> None"
    and "8 \<le> length (si_password d)"
proof -
  from assms obtain obj u m p where b: "b = Some obj"
    and u: "zoptional 3 (Some 20) (obj ''username'') = Some u"
    and m: "zoptional 1 None (obj ''email'') = Some m"
    and p: "zstring 8 (Some 30) (obj ''password'') = Some p"
    and d: "d = \<lparr>si_username = u, si_email = m, si_password = p\<rparr>"
    by (auto simp: SigninSchem_def split: option.splits)
  show "\<exists>obj. b = Some obj \<and> map_option JStr (si_username d) = obj ''username''
           \<and> map_option JStr (si_email d) = obj ''email''
           \<and> obj ''password'' = Some (JStr (si_password d))"
    using b d zoptional_Some [OF u] zoptional_Some [OF m] zstring_Some [OF p] by simp
  show "truthy_str (si_username d) \<longleftrightarrow> si_username d \<noteq> None"
    using d zoptional_Some [OF u] by (cases u) auto
  show "truthy_str (si_email d) \<longleftrightarrow> si_email d \<noteq> None"
    using d zoptional_Some [OF m] by (cases m) auto
  show "8 \<le> length (si_password d)"
    using d zstring_Some [OF p] by simp
qed

lemma login_by_username:
  assumes "SigninSchem (body req) = Success d" "si_username d = Some u"
  shows "login e req s =
    (case user_findUnique_username e u s of
       (Inl err, s') \<Rightarrow> (Uncaught (StoreFailure err), s')
     | (Inr None, s') \<Rightarrow> (Response 404 (Some ''Not Authorized'') NoPayload, s')
     | (Inr (Some user), s') \<Rightarrow>
         if \<not> bcrypt_compare e (si_password d) (user_password user)
         then (Response 401 (Some ''Not correct password'') NoPayload, s')
         else (Response 200 (Some ''Login successful'') (TokenP (compact (jwt_sign e (user_id user)))), s'))"
  using assms SigninSchem_Success(2) [OF assms(1)] by (simp add: login_def)

lemma login_by_email:
  assumes "SigninSchem (body req) = Success d" "si_username d = None" "si_email d = Some m"
  shows "login e req s =
    (case user_findUnique_email e m s of
       (Inl err, s') \<Rightarrow> (Uncaught (StoreFailure err), s')
     | (Inr None, s') \<Rightarrow> (Response 404 (Some ''Not Authorized'') NoPayload, s')
     | (Inr (Some user), s') \<Rightarrow>
         if \<not> bcrypt_compare e (si_password d) (user_password user)
         then (Response 401 (Some ''Not correct password'') NoPayload, s')
         else (Response 200 (Some ''Login successful'') (TokenP (compact (jwt_sign e (user_id user)))), s'))"
  using assms SigninSchem_Success(3) [OF assms(1)] by (simp add: login_def)

lemma login_by_nothing:
  assumes "SigninSchem (body req) = Success d" "si_username d = None" "si_email d = None"
  shows "login e req s = (Response 404 (Some ''Not Authorized'') NoPayload, s)"
  using assms by (simp add: login_def)

text \<open>
  C5, as the code has it. For a Login payload that passes \<open>SigninSchem\<close>, the parsed
  \<open>username\<close> and \<open>email\<close> are the fields of the body, and the store calls of the
  request are: the lookup by username alone when \<open>username\<close> is present (whether or not
  \<open>email\<close> is); otherwise the lookup by email alone when \<open>email\<close> is present;
  otherwise none at all, and the answer is 404. So at most one lookup is made.
\<close>

theorem login_lookup_path:
  "SigninSchem (body req) = Success d \<and> login e req s = (out, s') \<longrightarrow>
     (\<exists>obj. body req = Some obj \<and> map_option JStr (si_username d) = obj ''username''
         \<and> map_option JStr (si_email d) = obj ''email'') \<and>
     (case si_username d of
        Some u \<Rightarrow> map fst (new_calls s s') = [UserFindUniqueUsername u]
      | None \<Rightarrow>
          (case si_email d of
             Some m \<Rightarrow> map fst (new_calls s s') = [UserFindUniqueEmail m]
           | None \<Rightarrow> new_calls s s' = []
               \<and> out = Response 404 (Some ''Not Authorized'') NoPayload))"
proof (intro impI conjI; elim conjE)
  assume v: "SigninSchem (body req) = Success d" and r: "login e req s = (out, s')"
  show "\<exists>obj. body req = Some obj \<and> map_option JStr (si_username d) = obj ''username''
         \<and> map_option JStr (si_email d) = obj ''email''"
    using SigninSchem_Success(1) [OF v] by blast
  show "case si_username d of
        Some u \<Rightarrow> map fst (new_calls s s') = [UserFindUniqueUsername u]
      | None \<Rightarrow>
          (case si_email d of
             Some m \<Rightarrow> map fst (new_calls s s') = [UserFindUniqueEmail m]
           | None \<Rightarrow> new_calls s s' = []
               \<and> out = Response 404 (Some ''Not Authorized'') NoPayload)"
  proof (cases "si_username d")
    case (Some u)
    obtain q s1 where f: "user_findUnique_username e u s = (q, s1)"
      by (cases "user_findUnique_username e u s")
    have "s' = s1"
      using r login_by_username [OF v Some, of e s] f
      by (auto split: sum.splits option.splits if_splits)
    with user_findUnique_username_calls [OF f] Some show ?thesis by simp
  next
    case None
    show ?thesis
    proof (cases "si_email d")
      case (Some m)
      obtain q s1 where f: "user_findUnique_email e m s = (q, s1)"
        by (cases "user_findUnique_email e m s")
      have "s' = s1"
        using r login_by_email [OF v None Some, of e s] f
        by (auto split: sum.splits option.splits if_splits)
      with user_findUnique_email_calls [OF f] None Some show ?thesis by simp
    next
      case n: None
      show ?thesis
        using r login_by_nothing [OF v None n, of e s] None n by auto
    qed
  qed
qed

text \<open>
  The claim as written ("exactly one lookup path") fails for a payload with neither
  field, which the schema accepts: no lookup is made.
\<close>

theorem login_lookup_path_counterexample:
  "SigninSchem (Some (map_of [(''password'', JStr ''long-enough'')]))
     = Success \<lparr>si_username = None, si_email = None, si_password = ''long-enough''\<rparr> \<and>
   login sample_env (mk_request [] [] (Some [(''password'', JStr ''long-enough'')])) sample_store
     = (Response 404 (Some ''Not Authorized'') NoPayload, sample_store)"
  by (simp add: login_def SigninSchem_def zoptional_def zstring_def mk_request_def)

theorem login_lookup_path_witness:
  "map fst (new_calls sample_store (snd (login sample_env
      (mk_request [] []
         (Some [(''username'', JStr ''alice''), (''email'', JStr ''bob@example.com''),
                (''password'', JStr ''correct-horse'')])) sample_store)))
     = [UserFindUniqueUsername ''alice''] \<and>
   map fst (new_calls sample_store (snd (login sample_env
      (mk_request [] []
         (Some [(''email'', JStr ''bob@example.com''),
                (''password'', JStr ''correct-horse'')])) sample_store)))
     = [UserFindUniqueEmail ''bob@example.com'']"
proof -
  let ?a = "mk_request [] []
         (Some [(''username'', JStr ''alice''), (''email'', JStr ''bob@example.com''),
                (''password'', JStr ''correct-horse'')])"
  let ?b = "mk_request [] []
         (Some [(''email'', JStr ''bob@example.com''),
                (''password'', JStr ''correct-horse'')])"
  have a: "SigninSchem (body ?a) = Success \<lparr>si_username = Some ''alice'',
      si_email = Some ''bob@example.com'', si_password = ''correct-horse''\<rparr>"
    by (simp add: SigninSchem_def zoptional_def zstring_def mk_request_def)
  have b: "SigninSchem (body ?b) = Success \<lparr>si_username = None,
      si_email = Some ''bob@example.com'', si_password = ''correct-horse''\<rparr>"
    by (simp add: SigninSchem_def zoptional_def zstring_def mk_request_def)
  have 1: "map fst (new_calls sample_store (snd (login sample_env ?a sample_store)))
     = [UserFindUniqueUsername ''alice'']"
    using login_lookup_path [where req = ?a and e = sample_env and s = sample_store
        and d = "\<lparr>si_username = Some ''alice'',
              si_email = Some ''bob@example.com'', si_password = ''correct-horse''\<rparr>"
        and out = "fst (login sample_env ?a sample_store)"
        and s' = "snd (login sample_env ?a sample_store)"] a
    by simp
  have 2: "map fst (new_calls sample_store (snd (login sample_env ?b sample_store)))
     = [UserFindUniqueEmail ''bob@example.com'']"
    using login_lookup_path [where req = ?b and e = sample_env and s = sample_store
        and d = "\<lparr>si_username = None,
              si_email = Some ''bob@example.com'', si_password = ''correct-horse''\<rparr>"
        and out = "fst (login sample_env ?b sample_store)"
        and s' = "snd (login sample_env ?b sample_store)"] b
    by simp
  from 1 2 show ?thesis by simp
qed







subsection \<open>Lists are newest first\<close>

lemma sorted_wrt_ge_rev_sort_key:
  "sorted_wrt (\<ge>) (map k (rev (sort_key k xs)))"
proof -
  have "sorted (map k (sort_key k xs))" by simp
  then have "sorted_wrt (\<lambda>x y. y \<le> x) (rev (map k (sort_key k xs)))"
    by (simp only: sorted_wrt_rev)
  then show ?thesis by (simp add: rev_map)
qed

lemma order_by_Desc_sorted: "sorted_wrt (\<ge>) (map k (order_by Desc k xs))"
  by (simp add: order_by_def sorted_wrt_ge_rev_sort_key)

lemma order_by_mset [simp]: "mset (order_by d k xs) = mset xs"
  by (cases d) (simp_all add: order_by_def)

lemma pv_post_view_of [simp]: "pv_post (post_view_of ord s p) = p"
  by (simp add: post_view_of_def Let_def)

lemma cv_comment_view_of [simp]: "cv_comment (comment_view_of s c) = c"
  by (simp add: comment_view_of_def)

lemma map_pv_post [simp]: "map pv_post (map (post_view_of ord s) ps) = ps"
  by (induction ps) simp_all

lemma map_cv_comment [simp]: "map cv_comment (map (comment_view_of s) cs) = cs"
  by (induction cs) simp_all

lemma posts_get_ok:
  "fault e PostFindMany = None \<Longrightarrow>
   posts_get e uid req s =
     (Response 200 (Some ''Got all posts'')
        (AllPostsP (map (post_view_of None s) (order_by Desc post_created_at (posts s)))),
      s\<lparr>calls := calls s @ [(PostFindMany, None)]\<rparr>)"
  by (simp add: posts_get_def post_findMany_def invoke_def)

lemma comments_get_post_ok:
  "fault e (CommentFindMany (Some i)) = None \<Longrightarrow> params req ''postId'' = Some i \<Longrightarrow>
   comments_get_post e uid req s =
     (Response 200 (Some ''Got comments'')
        (CommentsP (map (comment_view_of s)
           (order_by Desc comment_created_at
              (filter (\<lambda>c. comment_post_id c = i) (comments s))))),
      s\<lparr>calls := calls s @ [(CommentFindMany (Some i), None)]\<rparr>)"
  by (simp add: comments_get_post_def comment_findMany_post_def invoke_def)

lemma desc_three:
  fixes k :: "'a \<Rightarrow> nat"
  assumes m: "mset xs = {#a, b, c#}" and s: "sorted_wrt (\<ge>) (map k xs)"
    and lt: "k a < k b" "k b < k c"
  shows "xs = [c, b, a]"
proof -
  have mk: "mset (map k xs) = mset [k a, k b, k c]"
    using m by simp
  have set_xs: "set xs = {a, b, c}"
    using m by (metis set_mset_mset set_mset_add_mset_insert set_mset_empty)
  have "distinct [k a, k b, k c]" using lt by auto
  then have dk: "distinct (rev (map k xs))"
    using mk by (metis distinct_rev mset_eq_imp_distinct_iff)
  have sk: "sorted (rev (map k xs))"
    using s by (simp add: sorted_wrt_rev)
  have "set (rev (map k xs)) = set [k a, k b, k c]"
    using mk by (metis mset_eq_setD set_rev)
  moreover have "sorted [k a, k b, k c]" "distinct [k a, k b, k c]" using lt by auto
  ultimately have "rev (map k xs) = [k a, k b, k c]"
    using sk dk by (metis sorted_distinct_set_unique)
  then have "map k xs = rev [k a, k b, k c]" by (metis rev_rev_ident)
  then have e: "map k xs = map k [c, b, a]" by simp
  have "inj_on k (set xs \<union> set [c, b, a])"
    using lt by (auto simp: set_xs inj_on_def)
  then show ?thesis using e by (simp only: inj_on_map_eq_map)
qed

text \<open>
  C9. When the store read does not fail, List Posts answers 200 with the posts of the
  store (the same rows, as a multiset) in an order in which \<open>created_at\<close> never
  increases, and List Comments-by-post does the same with the comments of that post.
  In particular, when the rows are three, created at times \<open>t1 < t2 < t3\<close>, the list is
  the one created at \<open>t3\<close>, then \<open>t2\<close>, then \<open>t1\<close>, whatever their order in the table.
\<close>

theorem lists_newest_first:
  "(fault e PostFindMany = None \<longrightarrow>
      (\<exists>vs. posts_get e uid req s =
               (Response 200 (Some ''Got all posts'') (AllPostsP vs),
                s\<lparr>calls := calls s @ [(PostFindMany, None)]\<rparr>)
          \<and> sorted_wrt (\<ge>) (map post_created_at (map pv_post vs))
          \<and> mset (map pv_post vs) = mset (posts s)
          \<and> (mset (posts s) = {#p1, p2, p3#} \<and> post_created_at p1 < post_created_at p2
               \<and> post_created_at p2 < post_created_at p3 \<longrightarrow>
               map pv_post vs = [p3, p2, p1])))
   \<and>
   (params req ''postId'' = Some i \<and> fault e (CommentFindMany (Some i)) = None \<longrightarrow>
      (\<exists>vs. comments_get_post e uid req s =
               (Response 200 (Some ''Got comments'') (CommentsP vs),
                s\<lparr>calls := calls s @ [(CommentFindMany (Some i), None)]\<rparr>)
          \<and> sorted_wrt (\<ge>) (map comment_created_at (map cv_comment vs))
          \<and> mset (map cv_comment vs) = mset (filter (\<lambda>c. comment_post_id c = i) (comments s))
          \<and> (mset (filter (\<lambda>c. comment_post_id c = i) (comments s)) = {#c1, c2, c3#}
               \<and> comment_created_at c1 < comment_created_at c2
               \<and> comment_created_at c2 < comment_created_at c3 \<longrightarrow>
               map cv_comment vs = [c3, c2, c1])))"
proof (intro conjI impI; (elim conjE)?)
  assume f: "fault e PostFindMany = None"
  let ?ps = "order_by Desc post_created_at (posts s)"
  have "mset (posts s) = {#p1, p2, p3#} \<and> post_created_at p1 < post_created_at p2
               \<and> post_created_at p2 < post_created_at p3 \<longrightarrow> ?ps = [p3, p2, p1]"
    using desc_three [of ?ps p1 p2 p3 post_created_at]
    by (simp add: order_by_Desc_sorted)
  then show "\<exists>vs. posts_get e uid req s =
               (Response 200 (Some ''Got all posts'') (AllPostsP vs),
                s\<lparr>calls := calls s @ [(PostFindMany, None)]\<rparr>)
          \<and> sorted_wrt (\<ge>) (map post_created_at (map pv_post vs))
          \<and> mset (map pv_post vs) = mset (posts s)
          \<and> (mset (posts s) = {#p1, p2, p3#} \<and> post_created_at p1 < post_created_at p2
               \<and> post_created_at p2 < post_created_at p3 \<longrightarrow>
               map pv_post vs = [p3, p2, p1])"
    by (intro exI [of _ "map (post_view_of None s) ?ps"])
       (simp add: posts_get_ok [OF f] order_by_Desc_sorted del: map_map)
next
  assume p: "params req ''postId'' = Some i" and f: "fault e (CommentFindMany (Some i)) = None"
  let ?cs = "order_by Desc comment_created_at (filter (\<lambda>c. comment_post_id c = i) (comments s))"
  have "mset (filter (\<lambda>c. comment_post_id c = i) (comments s)) = {#c1, c2, c3#}
               \<and> comment_created_at c1 < comment_created_at c2
               \<and> comment_created_at c2 < comment_created_at c3 \<longrightarrow> ?cs = [c3, c2, c1]"
    using desc_three [of ?cs c1 c2 c3 comment_created_at]
    by (simp add: order_by_Desc_sorted)
  then show "\<exists>vs. comments_get_post e uid req s =
               (Response 200 (Some ''Got comments'') (CommentsP vs),
                s\<lparr>calls := calls s @ [(CommentFindMany (Some i), None)]\<rparr>)
          \<and> sorted_wrt (\<ge>) (map comment_created_at (map cv_comment vs))
          \<and> mset (map cv_comment vs) = mset (filter (\<lambda>c. comment_post_id c = i) (comments s))
          \<and> (mset (filter (\<lambda>c. comment_post_id c = i) (comments s)) = {#c1, c2, c3#}
               \<and> comment_created_at c1 < comment_created_at c2
               \<and> comment_created_at c2 < comment_created_at c3 \<longrightarrow>
               map cv_comment vs = [c3, c2, c1])"
    by (intro exI [of _ "map (comment_view_of s) ?cs"])
       (simp add: comments_get_post_ok [OF f p] order_by_Desc_sorted del: map_map)
qed

theorem lists_newest_first_witness:
  "(\<exists>vs. posts_get sample_env (Some ''u1'') (mk_request [] [] None) sample_store =
           (Response 200 (Some ''Got all posts'') (AllPostsP vs),
            sample_store\<lparr>calls := [(PostFindMany, None)]\<rparr>)
      \<and> map pv_post vs = [post3, post2, post1]) \<and>
   (\<exists>vs. comments_get_post sample_env (Some ''u1'')
           (mk_request [] [(''postId'', ''p1'')] None) sample_store =
           (Response 200 (Some ''Got comments'') (CommentsP vs),
            sample_store\<lparr>calls := [(CommentFindMany (Some ''p1''), None)]\<rparr>)
      \<and> map cv_comment vs = [comment3, comment2, comment1])"
proof -
  have f: "fault sample_env PostFindMany = None"
    "fault sample_env (CommentFindMany (Some ''p1'')) = None"
    by (simp_all add: sample_env_def)
  have mp: "mset (posts sample_store) = {#post1, post2, post3#}"
    by (simp add: sample_store_def)
  have tp: "post_created_at post1 < post_created_at post2"
    "post_created_at post2 < post_created_at post3"
    by (simp_all add: post1_def post2_def post3_def)
  have mc: "mset (filter (\<lambda>c. comment_post_id c = ''p1'') (comments sample_store))
      = {#comment1, comment2, comment3#}"
    by (simp add: sample_store_def comment1_def comment2_def comment3_def)
  have tc: "comment_created_at comment1 < comment_created_at comment2"
    "comment_created_at comment2 < comment_created_at comment3"
    by (simp_all add: comment1_def comment2_def comment3_def)
  have pp: "params (mk_request [] [(''postId'', ''p1'')] None) ''postId'' = Some ''p1''"
    by (simp add: mk_request_def)
  have c0: "calls sample_store = []" by (simp add: sample_store_def)
  have 1: "\<exists>vs. posts_get sample_env (Some ''u1'') (mk_request [] [] None) sample_store =
           (Response 200 (Some ''Got all posts'') (AllPostsP vs),
            sample_store\<lparr>calls := [(PostFindMany, None)]\<rparr>)
      \<and> map pv_post vs = [post3, post2, post1]"
    using lists_newest_first [where e = sample_env and s = sample_store
        and req = "mk_request [] [] None" and uid = "Some ''u1''"
        and ?p1.0 = post1 and ?p2.0 = post2 and ?p3.0 = post3, THEN conjunct1] f mp tp c0
    by auto
  have 2: "\<exists>vs. comments_get_post sample_env (Some ''u1'')
           (mk_request [] [(''postId'', ''p1'')] None) sample_store =
           (Response 200 (Some ''Got comments'') (CommentsP vs),
            sample_store\<lparr>calls := [(CommentFindMany (Some ''p1''), None)]\<rparr>)
      \<and> map cv_comment vs = [comment3, comment2, comment1]"
    using lists_newest_first [where e = sample_env and s = sample_store
        and req = "mk_request [] [(''postId'', ''p1'')] None" and uid = "Some ''u1''"
        and i = "''p1''"
        and ?c1.0 = comment1 and ?c2.0 = comment2 and ?c3.0 = comment3, THEN conjunct2]
      f pp mc tc c0
    by auto
  from 1 2 show ?thesis by blast
qed

subsection \<open>What an update writes\<close>

lemma zoptional_JStr: "zoptional lo hi v = Some x \<Longrightarrow> map_option JStr x = v"
  by (auto simp: zoptional_def zstring_def split: option.splits json.splits if_splits)

lemma updatePostSchema_Success:
  "updatePostSchema b = Success d \<Longrightarrow>
     \<exists>obj. b = Some obj \<and> map_option JStr (up_title d) = obj ''title''
        \<and> map_option JStr (up_content d) = obj ''content''"
  by (auto simp: updatePostSchema_def dest: zoptional_JStr split: option.splits if_splits)

lemma post_findUnique_author_Inr:
  "post_findUnique_author e i s = (Inr a, s1) \<Longrightarrow>
     a = map_option post_author_id (find_post i (posts s))
     \<and> s1 = s\<lparr>calls := calls s @ [(PostFindUnique i, None)]\<rparr>"
  by (auto simp: post_findUnique_author_def dest!: invoke_Inr)

lemma post_update_Inr:
  "post_update e i t c s = (Inr up, s') \<Longrightarrow>
     \<exists>p. find_post i (posts s) = Some p
       \<and> up = PostWithAuthor (apply_post_update e t c p) (author_of s (post_author_id p))
       \<and> s' = s\<lparr>posts := map (\<lambda>q. if post_id q = i then apply_post_update e t c q else q)
                             (posts s),
                 calls := calls s @ [(PostUpdate i t c, None)]\<rparr>"
  by (auto simp: post_update_def dest!: invoke_Inr split: option.splits)

lemma post_id_apply_post_update [simp]: "post_id (apply_post_update e t c p) = post_id p"
  by (simp add: apply_post_update_def)

lemma find_post_map_update:
  "find_post i ps = Some p \<Longrightarrow>
   find_post i (map (\<lambda>q. if post_id q = i then apply_post_update e t c q else q) ps)
     = Some (apply_post_update e t c p)"
  by (induction ps) (auto simp: find_post_def)

lemma filter_other_map_update:
  "filter (\<lambda>q. post_id q \<noteq> i)
     (map (\<lambda>q. if post_id q = i then apply_post_update e t c q else q) ps)
   = filter (\<lambda>q. post_id q \<noteq> i) ps"
  by (induction ps) auto

lemma map_post_id_map_update:
  "map post_id (map (\<lambda>q. if post_id q = i then apply_post_update e t c q else q) ps)
     = map post_id ps"
  by (induction ps) auto

lemma posts_put_200:
  assumes "posts_put e uid req s = (Response 200 m (UpdatedPostP up), s')"
    and "params req ''postId'' = Some i"
  shows "\<exists>d s1. updatePostSchema (body req) = Success d
      \<and> s1 = s\<lparr>calls := calls s @ [(PostFindUnique i, None)]\<rparr>
      \<and> post_update e i (up_title d) (up_content d) s1 = (Inr up, s')"
  using assms
  by (auto simp: posts_put_def Let_def dest!: post_findUnique_author_Inr
      split: if_splits parse_result.splits prod.splits sum.splits option.splits)

text \<open>
  C10. A successful Update Post (answer 200 with the updated post) had a payload that
  passed \<open>updatePostSchema\<close>, whose parsed \<open>title\<close> and \<open>content\<close> are the fields of
  the body. The post had a row \<open>p\<close> before; the row afterwards is the post returned,
  with the same \<open>id\<close>, \<open>author_id\<close> and \<open>created_at\<close> as \<open>p\<close>, the \<open>title\<close> of the
  payload when it supplies one and that of \<open>p\<close> otherwise, and likewise for
  \<open>content\<close>. The rows of other posts, the ids of all posts, the users and the comments
  are as before. (The store sets the row's update timestamp, which is no field of the
  payload.)
\<close>

theorem update_post_frame:
  "params req ''postId'' = Some i
     \<and> posts_put e uid req s = (Response 200 m (UpdatedPostP up), s') \<longrightarrow>
   (\<exists>d obj p.
      updatePostSchema (body req) = Success d \<and> body req = Some obj
      \<and> map_option JStr (up_title d) = obj ''title''
      \<and> map_option JStr (up_content d) = obj ''content''
      \<and> find_post i (posts s) = Some p
      \<and> find_post i (posts s') = Some (pa_post up)
      \<and> post_id (pa_post up) = post_id p
      \<and> post_author_id (pa_post up) = post_author_id p
      \<and> post_created_at (pa_post up) = post_created_at p
      \<and> post_title (pa_post up) = (case up_title d of None \<Rightarrow> post_title p | Some t \<Rightarrow> t)
      \<and> post_content (pa_post up) = (case up_content d of None \<Rightarrow> post_content p | Some c \<Rightarrow> c)
      \<and> filter (\<lambda>q. post_id q \<noteq> i) (posts s') = filter (\<lambda>q. post_id q \<noteq> i) (posts s)
      \<and> map post_id (posts s') = map post_id (posts s)
      \<and> users s' = users s \<and> comments s' = comments s)"
proof (intro impI; elim conjE)
  assume i: "params req ''postId'' = Some i"
    and r: "posts_put e uid req s = (Response 200 m (UpdatedPostP up), s')"
  from posts_put_200 [OF r i] obtain d where
    v: "updatePostSchema (body req) = Success d" and
    u: "post_update e i (up_title d) (up_content d)
          (s\<lparr>calls := calls s @ [(PostFindUnique i, None)]\<rparr>) = (Inr up, s')"
    by blast
  from updatePostSchema_Success [OF v] obtain obj where
    b: "body req = Some obj" "map_option JStr (up_title d) = obj ''title''"
       "map_option JStr (up_content d) = obj ''content''"
    by blast
  from post_update_Inr [OF u] obtain p where
    p: "find_post i (posts s) = Some p" and
    up: "up = PostWithAuthor (apply_post_update e (up_title d) (up_content d) p)
                (author_of (s\<lparr>calls := calls s @ [(PostFindUnique i, None)]\<rparr>)
                   (post_author_id p))" and
    s': "s' = s\<lparr>calls := calls s @ [(PostFindUnique i, None)],
               posts := map (\<lambda>q. if post_id q = i
                                   then apply_post_update e (up_title d) (up_content d) q else q)
                            (posts s),
               calls := calls s @ [(PostFindUnique i, None)]
                          @ [(PostUpdate i (up_title d) (up_content d), None)]\<rparr>"
    by auto
  have f: "find_post i (posts s') = Some (pa_post up)"
    using p by (simp add: s' up find_post_map_update)
  have g: "post_id (pa_post up) = post_id p"
      "post_author_id (pa_post up) = post_author_id p"
      "post_created_at (pa_post up) = post_created_at p"
      "post_title (pa_post up) = (case up_title d of None \<Rightarrow> post_title p | Some t \<Rightarrow> t)"
      "post_content (pa_post up) = (case up_content d of None \<Rightarrow> post_content p | Some c \<Rightarrow> c)"
    by (simp_all add: up apply_post_update_def)
  have h: "filter (\<lambda>q. post_id q \<noteq> i) (posts s') = filter (\<lambda>q. post_id q \<noteq> i) (posts s)"
      "map post_id (posts s') = map post_id (posts s)"
      "users s' = users s" "comments s' = comments s"
    by (simp_all add: s' filter_other_map_update map_post_id_map_update del: map_map)
  show "\<exists>d obj p.
      updatePostSchema (body req) = Success d \<and> body req = Some obj
      \<and> map_option JStr (up_title d) = obj ''title''
      \<and> map_option JStr (up_content d) = obj ''content''
      \<and> find_post i (posts s) = Some p
      \<and> find_post i (posts s') = Some (pa_post up)
      \<and> post_id (pa_post up) = post_id p
      \<and> post_author_id (pa_post up) = post_author_id p
      \<and> post_created_at (pa_post up) = post_created_at p
      \<and> post_title (pa_post up) = (case up_title d of None \<Rightarrow> post_title p | Some t \<Rightarrow> t)
      \<and> post_content (pa_post up) = (case up_content d of None \<Rightarrow> post_content p | Some c \<Rightarrow> c)
      \<and> filter (\<lambda>q. post_id q \<noteq> i) (posts s') = filter (\<lambda>q. post_id q \<noteq> i) (posts s)
      \<and> map post_id (posts s') = map post_id (posts s)
      \<and> users s' = users s \<and> comments s' = comments s"
    using v b p f g h by blast
qed

theorem update_post_frame_witness:
  "fst (posts_put sample_env (Some ''u1'')
          (mk_request [] [(''postId'', ''p1'')] (Some [(''title'', JStr ''Renamed'')]))
          sample_store)
     = Response 200 (Some ''Post updated'')
         (UpdatedPostP (PostWithAuthor (post1\<lparr>post_title := ''Renamed'', post_updated_at := 10\<rparr>)
            (Some (AuthorView ''u1'' ''alice'' ''alice@example.com'')))) \<and>
   find_post ''p1'' (posts (snd (posts_put sample_env (Some ''u1'')
          (mk_request [] [(''postId'', ''p1'')] (Some [(''title'', JStr ''Renamed'')]))
          sample_store)))
     = Some (post1\<lparr>post_title := ''Renamed'', post_updated_at := 10\<rparr>) \<and>
   filter (\<lambda>q. post_id q \<noteq> ''p1'') (posts (snd (posts_put sample_env (Some ''u1'')
          (mk_request [] [(''postId'', ''p1'')] (Some [(''title'', JStr ''Renamed'')]))
          sample_store)))
     = [post2, post3]"
proof -
  let ?r = "mk_request [] [(''postId'', ''p1'')] (Some [(''title'', JStr ''Renamed'')])"
  let ?up = "PostWithAuthor (post1\<lparr>post_title := ''Renamed'', post_updated_at := 10\<rparr>)
            (Some (AuthorView ''u1'' ''alice'' ''alice@example.com''))"
  let ?s' = "snd (posts_put sample_env (Some ''u1'') ?r sample_store)"
  have o: "fst (posts_put sample_env (Some ''u1'') ?r sample_store)
      = Response 200 (Some ''Post updated'') (UpdatedPostP ?up)"
    by (simp add: posts_put_def missing_def updatePostSchema_def zoptional_def zstring_def
        author_of_def Let_def sample_defs store_defs)
  then have h: "posts_put sample_env (Some ''u1'') ?r sample_store
      = (Response 200 (Some ''Post updated'') (UpdatedPostP ?up), ?s')"
    by (simp add: prod_eq_iff)
  have i: "params ?r ''postId'' = Some ''p1''"
    by (simp add: mk_request_def)
  from update_post_frame [where req = ?r and i = "''p1''" and e = sample_env
      and uid = "Some ''u1''" and s = sample_store and up = ?up and s' = ?s'
      and m = "Some ''Post updated''"] i h
  have f: "find_post ''p1'' (posts ?s') = Some (pa_post ?up)"
    and g: "filter (\<lambda>q. post_id q \<noteq> ''p1'') (posts ?s')
         = filter (\<lambda>q. post_id q \<noteq> ''p1'') (posts sample_store)"
    by blast+
  have "filter (\<lambda>q. post_id q \<noteq> ''p1'') (posts sample_store) = [post2, post3]"
    by (simp add: sample_store_def post1_def post2_def post3_def)
  with o f g show ?thesis by simp
qed

end
